theory Spec2Isabelle
  imports Complex_Main "HOL-Library.Sublist" "HOL-Library.Multiset"
begin

section \<open>Python values\<close>

text \<open>
  A Python \<open>str\<close> is a sequence of Unicode code points, and \<open>len\<close> counts code points;
  a text is therefore a list of code points.  String literals of the source are written
  with \<open>lit\<close>.

  A Python float is a binary64 number.  The sub-scores are computed over the real numbers;
  the composite score, whose rounding to two decimals makes the last bit of a sum visible,
  is computed with the float operations \<open>fmul\<close>, \<open>fadd\<close> and \<open>py_round\<close> below.
\<close>

type_synonym codepoint = nat
type_synonym str = "codepoint list"

definition lit :: "string \<Rightarrow> str" where
  "lit cs = map of_char cs"

datatype error = ZeroDivisionError | ValueError | ValidationError | StopIteration

text \<open>\<open>a / b\<close> on numbers raises \<open>ZeroDivisionError\<close> when \<open>b\<close> is zero.\<close>

definition py_div :: "real \<Rightarrow> real \<Rightarrow> error + real" where
  "py_div a b = (if b = 0 then Inl ZeroDivisionError else Inr (a / b))"

text \<open>
  \<open>str.lower()\<close> is the Unicode lower-casing of the Python runtime: it maps letters of
  every script, depends on context (the final sigma) and can change the length of a text.
  It is a parameter, \<open>lower\<close>, of every function that calls it.  What is known about it
  is its effect on a text of ASCII characters, where it maps \<open>A\<close> to \<open>Z\<close> to \<open>a\<close> to \<open>z\<close> and
  leaves every other character as it is: \<open>ascii_lower\<close>.  A lower-casing that does so is
  one that \<open>lowers_ascii\<close>; \<open>ascii_lower\<close> itself stands for \<open>str.lower()\<close> where every
  text is ASCII.
\<close>

type_synonym lowering = "str \<Rightarrow> str"

definition lower_cp :: "codepoint \<Rightarrow> codepoint" where
  "lower_cp c = (if 65 \<le> c \<and> c \<le> 90 then c + 32 else c)"

definition ascii_lower :: lowering where
  "ascii_lower t = map lower_cp t"

definition lowers_ascii :: "lowering \<Rightarrow> bool" where
  "lowers_ascii lower \<longleftrightarrow> (\<forall>t. (\<forall>c\<in>set t. c < 128) \<longrightarrow> lower t = ascii_lower t)"

text \<open>\<open>sub in t\<close> on strings: \<open>sub\<close> occurs in \<open>t\<close> as a contiguous run.\<close>

primrec startswith :: "str \<Rightarrow> str \<Rightarrow> bool" where
  "startswith [] sub = (sub = [])"
| "startswith (c # t) sub = (case sub of [] \<Rightarrow> True | d # sub' \<Rightarrow> c = d \<and> startswith t sub')"

primrec is_in :: "str \<Rightarrow> str \<Rightarrow> bool" where
  "is_in sub [] = (sub = [])"
| "is_in sub (c # t) = (startswith (c # t) sub \<or> is_in sub t)"

text \<open>\<open>any(trigger in text for trigger in triggers)\<close>\<close>

definition any_in :: "str list \<Rightarrow> str \<Rightarrow> bool" where
  "any_in triggers t = list_ex (\<lambda>trigger. is_in trigger t) triggers"

text \<open>\<open>sum(1 for kw in kws if kw in text)\<close>\<close>

definition count_in :: "str list \<Rightarrow> str \<Rightarrow> nat" where
  "count_in kws t = length (filter (\<lambda>kw. is_in kw t) kws)"

text \<open>\<open>str.split("/")[0]\<close>: the text before the first separator character.\<close>

definition split_first :: "codepoint \<Rightarrow> str \<Rightarrow> str" where
  "split_first sep t = takeWhile (\<lambda>c. c \<noteq> sep) t"


text \<open>
  \<open>str.split()\<close> without arguments: the maximal runs of non-whitespace characters, where
  whitespace is what \<open>str.isspace\<close> accepts.
\<close>

definition isspace :: "codepoint \<Rightarrow> bool" where
  "isspace c \<longleftrightarrow>
     (9 \<le> c \<and> c \<le> 13) \<or> (28 \<le> c \<and> c \<le> 32) \<or> c = 133 \<or> c = 160 \<or> c = 5760 \<or>
     (8192 \<le> c \<and> c \<le> 8202) \<or> c = 8232 \<or> c = 8233 \<or> c = 8239 \<or> c = 8287 \<or> c = 12288"

fun split_from :: "str \<Rightarrow> str \<Rightarrow> str list" where
  "split_from w [] = (if w = [] then [] else [w])"
| "split_from w (c # t) =
     (if isspace c then (if w = [] then split_from [] t else w # split_from [] t)
      else split_from (w @ [c]) t)"

definition split :: "str \<Rightarrow> str list" where
  "split t = split_from [] t"

text \<open>\<open>sep.join(ws)\<close>\<close>

fun join :: "str \<Rightarrow> str list \<Rightarrow> str" where
  "join sep [] = []"
| "join sep [w] = w"
| "join sep (w # v # ws) = w @ sep @ join sep (v # ws)"

text \<open>\<open>max(xs)\<close> of a list raises \<open>ValueError\<close> on the empty list.\<close>

definition py_max :: "real list \<Rightarrow> error + real" where
  "py_max xs = (case xs of [] \<Rightarrow> Inl ValueError | x # ys \<Rightarrow> Inr (fold max ys x))"

text \<open>
  Float arithmetic.  \<open>to_double x\<close> is the binary64 number nearest to the real \<open>x\<close>, a tie
  going to the even significand: \<open>binade_from \<bar>x\<bar> 1023\<close> finds the exponent \<open>e\<close> with
  \<open>2 ^ e \<le> \<bar>x\<bar> < 2 ^ (e + 1)\<close> (\<open>- 1022\<close> for the subnormal numbers), and the doubles of
  that binade are the multiples of \<open>quantum x = 2 ^ (e - 52)\<close>.  Results beyond the largest
  double, which Python turns into \<open>inf\<close>, are outside the model.  \<open>x * y\<close> and \<open>x + y\<close> on
  floats round the exact product and sum.
\<close>

definition round_half_even :: "real \<Rightarrow> int" where
  "round_half_even x =
     (let f = \<lfloor>x\<rfloor>; d = x - of_int f
      in if d < 1 / 2 then f else if 1 / 2 < d then f + 1 else if even f then f else f + 1)"

function binade_from :: "real \<Rightarrow> int \<Rightarrow> int" where
  "binade_from x e = (if e \<le> - 1022 \<or> 2 powi e \<le> x then e else binade_from x (e - 1))"
  by pat_completeness auto
termination
  by (relation "measure (\<lambda>(x, e). nat (e + 1022))") auto

declare binade_from.simps [simp del]

definition quantum :: "real \<Rightarrow> real" where
  "quantum x = 2 powi (binade_from \<bar>x\<bar> 1023 - 52)"

definition to_double :: "real \<Rightarrow> real" where
  "to_double x = of_int (round_half_even (x / quantum x)) * quantum x"

definition fmul :: "real \<Rightarrow> real \<Rightarrow> real" where
  "fmul x y = to_double (x * y)"

definition fadd :: "real \<Rightarrow> real \<Rightarrow> real" where
  "fadd x y = to_double (x + y)"

text \<open>
  \<open>round(x, ndigits)\<close> on a float: the exact value of \<open>x\<close> is rounded to the nearest
  multiple of \<open>10 ^ -ndigits\<close>, a tie going to the even multiple, and the result is the
  double nearest to that decimal.
\<close>

definition py_round :: "real \<Rightarrow> nat \<Rightarrow> real" where
  "py_round x ndigits = to_double (of_int (round_half_even (x * 10 ^ ndigits)) / 10 ^ ndigits)"


section \<open>Schemas (schemas/product.py)\<close>

record ProductInput =
  title :: str
  description :: str
  category :: str
  brand :: str
  platform :: "str option"
  url :: "str option"
  market_rank :: "int option"
  image_url :: "str option"
  price :: "real option"

text \<open>The field constraints of \<open>ProductInput\<close> (\<open>min_length\<close>).\<close>

definition valid_product :: "ProductInput \<Rightarrow> bool" where
  "valid_product p \<longleftrightarrow>
     1 \<le> length (title p) \<and> 10 \<le> length (description p) \<and>
     1 \<le> length (category p) \<and> 1 \<le> length (brand p)"

record ScoreBreakdown =
  semantic_relevance :: real
  keyword_coverage :: real
  completeness :: real
  readability :: real

record WeaknessAnalysis =
  missing_specs :: "str list"
  missing_keywords :: "str list"
  clarity_issues :: "str list"
  suggestions :: "str list"

record SentimentResult =
  pros :: "str list"
  cons :: "str list"

record RankedProduct =
  product :: ProductInput
  score :: real
  rank :: int
  rp_market_rank :: "int option"
  rp_platform :: "str option"
  rp_url :: "str option"
  sentiment :: "SentimentResult option"

text \<open>
  Constructing a \<open>ScoreBreakdown\<close> validates its fields (\<open>ge=0, le=100\<close>) and raises
  when one is out of range.
\<close>

definition new_ScoreBreakdown :: "real \<Rightarrow> real \<Rightarrow> real \<Rightarrow> real \<Rightarrow> error + ScoreBreakdown" where
  "new_ScoreBreakdown sem kw cpl rd =
     (if (0 \<le> sem \<and> sem \<le> 100) \<and> (0 \<le> kw \<and> kw \<le> 100) \<and>
         (0 \<le> cpl \<and> cpl \<le> 100) \<and> (0 \<le> rd \<and> rd \<le> 100)
      then Inr \<lparr> semantic_relevance = sem, keyword_coverage = kw,
                 completeness = cpl, readability = rd \<rparr>
      else Inl ValidationError)"


section \<open>Settings (core/config.py)\<close>

text \<open>The float literals \<open>0.4\<close> and \<open>0.2\<close> denote the doubles nearest to 4/10 and 2/10.\<close>

definition WEIGHT_SEMANTIC :: real where "WEIGHT_SEMANTIC = to_double (4 / 10)"
definition WEIGHT_KEYWORD :: real where "WEIGHT_KEYWORD = to_double (2 / 10)"
definition WEIGHT_COMPLETENESS :: real where "WEIGHT_COMPLETENESS = to_double (2 / 10)"
definition WEIGHT_READABILITY :: real where "WEIGHT_READABILITY = to_double (2 / 10)"

text \<open>A query template is a sequence of literal texts and named slots.\<close>

datatype piece = Txt string | Slot_category | Slot_brand | Slot_use_case | Slot_feature

definition AI_QUERY_TEMPLATES :: "piece list list" where
  "AI_QUERY_TEMPLATES =
    [[Txt ''Best '', Slot_category, Txt '' for '', Slot_use_case],
     [Txt ''Top rated '', Slot_category],
     [Txt ''Affordable '', Slot_category],
     [Slot_category, Txt '' with '', Slot_feature],
     [Txt ''High quality '', Slot_category],
     [Txt ''Professional '', Slot_category],
     [Slot_brand, Txt '' '', Slot_category, Txt '' review'']]"

definition COMPLETENESS_KEYWORDS :: "str list" where
  "COMPLETENESS_KEYWORDS =
    [lit ''specifications'', lit ''specs'', lit ''features'', lit ''dimensions'', lit ''weight'',
     lit ''material'', lit ''color'', lit ''size'', lit ''warranty'', lit ''compatibility'',
     lit ''battery'', lit ''power'', lit ''capacity'', lit ''performance'', lit ''quality'',
     lit ''use case'', lit ''application'', lit ''suitable for'', lit ''ideal for'',
     lit ''technical'', lit ''highlights'', lit ''overview'', lit ''included'', lit ''package'',
     lit ''design'', lit ''technology'', lit ''engineered'', lit ''certified'']"

definition MIN_DESCRIPTION_LENGTH :: nat where
  "MIN_DESCRIPTION_LENGTH = 50"


section \<open>Scoring service (services/scorer.py)\<close>

text \<open>
  Besides \<open>lower\<close>, two collaborators are outside the repository and are parameters of
  the model: the embedder's \<open>compute_similarity_batch\<close> (\<open>emb query documents\<close>, the list of
  similarities) and \<open>textstat.flesch_reading_ease\<close> (\<open>fl text\<close>, \<open>None\<close> when it raises).
\<close>

type_synonym embedder = "str \<Rightarrow> str list \<Rightarrow> real list"
type_synonym flesch = "str \<Rightarrow> real option"

text \<open>
  The embedder's contract (\<open>batchSimilarity\<close>): one score per document.
\<close>

definition one_score_per_document :: "embedder \<Rightarrow> bool" where
  "one_score_per_document emb \<longleftrightarrow> (\<forall>query documents. length (emb query documents) = length documents)"

subsection \<open>Query generation\<close>

fun format_piece :: "str \<Rightarrow> str \<Rightarrow> str \<Rightarrow> str \<Rightarrow> piece \<Rightarrow> str" where
  "format_piece cat br uc ft (Txt t) = lit t"
| "format_piece cat br uc ft Slot_category = cat"
| "format_piece cat br uc ft Slot_brand = br"
| "format_piece cat br uc ft Slot_use_case = uc"
| "format_piece cat br uc ft Slot_feature = ft"

definition format_template :: "piece list \<Rightarrow> str \<Rightarrow> str \<Rightarrow> str \<Rightarrow> str \<Rightarrow> str" where
  "format_template template cat br uc ft = concat (map (format_piece cat br uc ft) template)"

definition generate_ai_queries :: "ProductInput \<Rightarrow> str list" where
  "generate_ai_queries p =
     map (\<lambda>template. format_template template (category p) (brand p)
                        (lit ''daily use'') (lit ''best features'')) AI_QUERY_TEMPLATES @
     [category p,
      brand p @ lit '' '' @ category p,
      lit ''best '' @ category p,
      lit ''top '' @ category p @ lit '' brands'']"

subsection \<open>Semantic relevance\<close>

definition chunk_size :: nat where
  "chunk_size = 200"

function word_chunks :: "str list \<Rightarrow> str list list" where
  "word_chunks ws =
     (if ws = [] then [] else take chunk_size ws # word_chunks (drop chunk_size ws))"
  by pat_completeness auto
termination
  by (relation "measure length") (auto simp: chunk_size_def)

fun chunk_similarities :: "embedder \<Rightarrow> str list \<Rightarrow> str list \<Rightarrow> error + real list" where
  "chunk_similarities emb queries [] = Inr []"
| "chunk_similarities emb queries (chunk # chunks) =
     (let similarities = emb chunk queries
      in case py_div (sum_list similarities) (real (length similarities)) of
           Inl e \<Rightarrow> Inl e
         | Inr m \<Rightarrow> (case chunk_similarities emb queries chunks of
                       Inl e \<Rightarrow> Inl e
                     | Inr ms \<Rightarrow> Inr (m # ms)))"

definition calculate_semantic_relevance ::
  "lowering \<Rightarrow> embedder \<Rightarrow> ProductInput \<Rightarrow> str list \<Rightarrow> error + real" where
  "calculate_semantic_relevance lower emb p queries =
     (let product_text = title p @ lit ''. '' @ description p;
          chunks = map (join (lit '' '')) (word_chunks (split product_text))
      in if chunks = [] then Inr 0
         else case chunk_similarities emb queries chunks of
           Inl e \<Rightarrow> Inl e
         | Inr all_chunk_similarities \<Rightarrow>
             (case py_max all_chunk_similarities of
                Inl e \<Rightarrow> Inl e
              | Inr max_similarity \<Rightarrow>
                  (case py_div (sum_list all_chunk_similarities)
                          (real (length all_chunk_similarities)) of
                     Inl e \<Rightarrow> Inl e
                   | Inr avg_similarity \<Rightarrow>
                       (let top_similarity = max_similarity * (8 / 10) + avg_similarity * (2 / 10);
                            score0 = top_similarity / (6 / 10) * 100;
                            score1 = (if is_in (lower (brand p)) (lower (title p))
                                      then score0 + 10 else score0)
                        in Inr (min 100 (max 0 score1))))))"

subsection \<open>Keyword coverage\<close>

definition important_keywords :: "lowering \<Rightarrow> ProductInput \<Rightarrow> str list" where
  "important_keywords lower p =
     [lower (category p), lower (brand p),
      lit ''quality'', lit ''premium'', lit ''best'', lit ''top'',
      lit ''features'', lit ''specifications'', lit ''performance'',
      lit ''technology'', lit ''design'', lit ''professional'', lit ''benefits'']"

definition calculate_keyword_coverage :: "lowering \<Rightarrow> ProductInput \<Rightarrow> error + real" where
  "calculate_keyword_coverage lower p =
     (let description_lower = lower (description p);
          found_keywords = count_in (important_keywords lower p) description_lower
      in case py_div (real found_keywords) (real (length (important_keywords lower p))) of
           Inl e \<Rightarrow> Inl e
         | Inr q \<Rightarrow> Inr (min 100 (max 0 (q * 100))))"

subsection \<open>Completeness\<close>

definition concepts :: "(str \<times> str list) list" where
  "concepts =
    [(lit ''battery'', [lit ''battery'', lit ''mah'', lit ''runtime'', lit ''hours'', lit ''charging'',
                        lit ''powered by'', lit ''h playback'', lit ''playtime'']),
     (lit ''dimensions'', [lit ''mm'', lit ''cm'', lit ''inch'', lit ''x'', lit ''folded'',
                           lit ''compact'', lit ''size'', lit ''dimensions'']),
     (lit ''material'', [lit ''leather'', lit ''carbon fiber'', lit ''plastic'', lit ''metal'',
                         lit ''aluminum'', lit ''steel'', lit ''fabric'', lit ''silicone'',
                         lit ''premium'']),
     (lit ''warranty'', [lit ''warranty'', lit ''guarantee'', lit ''year'', lit ''month'',
                         lit ''protection'']),
     (lit ''connectivity'', [lit ''bluetooth'', lit ''wireless'', lit ''nfc'', lit ''ldac'',
                             lit ''wifi'', lit ''cable'', lit ''jack'', lit ''aux'', lit ''5.0'',
                             lit ''5.3'']),
     (lit ''performance'', [lit ''fast'', lit ''speed'', lit ''processor'', lit ''optimized'',
                            lit ''high fidelity'', lit ''noise cancel'', lit ''hz'', lit ''khz'',
                            lit ''anc''])]"

text \<open>The structure markers: the bullet U+2022, the hyphen and the colon.\<close>

definition bullet :: str where
  "bullet = [8226]"

definition has_marker :: "str \<Rightarrow> bool" where
  "has_marker d \<longleftrightarrow> is_in bullet d \<or> is_in (lit ''-'') d \<or> is_in (lit '':'') d"

definition found_concepts :: "str \<Rightarrow> nat" where
  "found_concepts text_to_check =
     length (filter (\<lambda>(concept, triggers). any_in triggers text_to_check) concepts)"

definition calculate_completeness :: "lowering \<Rightarrow> ProductInput \<Rightarrow> error + real" where
  "calculate_completeness lower p =
     (let text_to_check = lower (title p @ lit '' '' @ description p);
          target_len = 2000;
          length_score = min 100 (real (length (description p)) / target_len * 100)
      in case py_div (real (found_concepts text_to_check)) (real (length concepts)) of
           Inl e \<Rightarrow> Inl e
         | Inr c \<Rightarrow>
            (let concept_score = c * 100;
                 keyword_overlap = count_in COMPLETENESS_KEYWORDS text_to_check
             in case py_div (real keyword_overlap) (real (length COMPLETENESS_KEYWORDS)) of
                  Inl e \<Rightarrow> Inl e
                | Inr k \<Rightarrow>
                   (let keyword_score = k * 100;
                        score0 = concept_score * (7 / 10) + keyword_score * (1 / 10)
                                 + length_score * (2 / 10);
                        score1 = (if has_marker (description p) then score0 + 15 else score0)
                    in Inr (min 100 (max 0 score1)))))"

subsection \<open>Readability\<close>

text \<open>
  Whatever is raised inside the \<open>try\<close> block is caught and replaced by the default 50,
  so the function itself never raises.
\<close>

definition calculate_readability :: "flesch \<Rightarrow> ProductInput \<Rightarrow> real" where
  "calculate_readability fl p =
     (let normalized_score =
            (case fl (description p) of
               None \<Rightarrow> 50
             | Some flesch_score \<Rightarrow>
                 (let n = (if flesch_score < 0 then 10
                           else if flesch_score < 30 then 40 + flesch_score / 30 * 10
                           else 50 + (flesch_score - 30) / 70 * 50)
                  in if has_marker (description p) then n + 10 else n))
      in min 100 (max 0 normalized_score))"

subsection \<open>Feature extraction\<close>

definition mapping :: "(str \<times> str list) list" where
  "mapping =
    [(lit ''wireless'', [lit ''wireless'', lit ''cordless'', lit ''wifi'', lit ''radio frequency'']),
     (lit ''bluetooth'', [lit ''bluetooth'', lit ''bt 5'', lit ''5.0'', lit ''5.1'', lit ''5.2'',
                          lit ''5.3'', lit ''ldac'']),
     (lit ''noise cancel'', [lit ''noise cancel'', lit ''anc'', lit ''digital noise'',
                             lit ''isolation'', lit ''qn1'', lit ''qn3'']),
     (lit ''fast charge'', [lit ''fast charge'', lit ''quick charge'', lit ''pd charge'',
                            lit ''3 min'', lit ''5 min'']),
     (lit ''battery life'', [lit ''hours'', lit ''h playback'', lit ''runtime'', lit ''playtime'',
                             lit ''battery'']),
     (lit ''material'', [lit ''leather'', lit ''carbon fiber'', lit ''metal'', lit ''aluminum'',
                         lit ''fabric'']),
     (lit ''design'', [lit ''folded'', lit ''swivel'', lit ''foldable'', lit ''compact'',
                       lit ''carrying case''])]"

definition extract_features :: "lowering \<Rightarrow> str \<Rightarrow> str \<Rightarrow> str list" where
  "extract_features lower ttl descr =
     (let text = lower (ttl @ lit '' '' @ descr)
      in map fst (filter (\<lambda>(feature, triggers). any_in triggers text) mapping))"

subsection \<open>Weakness analysis\<close>

definition concepts_to_check :: "(str \<times> str list) list" where
  "concepts_to_check =
    [(lit ''specifications/battery'', [lit ''battery'', lit ''mah'', lit ''runtime'', lit ''hours'',
                                       lit ''charging'', lit ''powered by'']),
     (lit ''dimensions/size'', [lit ''mm'', lit ''cm'', lit ''inch'', lit ''folded'', lit ''compact'',
                                lit ''size'']),
     (lit ''weight'', [lit ''weight'', lit ''grams'', lit '' kg'', lit ''lbs'', lit ''lightweight'']),
     (lit ''material'', [lit ''leather'', lit ''carbon fiber'', lit ''plastic'', lit ''metal'',
                         lit ''aluminum'', lit ''steel'', lit ''fabric'', lit ''silicone'']),
     (lit ''warranty'', [lit ''warranty'', lit ''guarantee'', lit ''protection''])]"

definition important_kw :: "str list" where
  "important_kw = [lit ''quality'', lit ''features'', lit ''benefits'', lit ''use case'']"

definition analyze_weaknesses :: "lowering \<Rightarrow> ProductInput \<Rightarrow> ScoreBreakdown \<Rightarrow> WeaknessAnalysis" where
  "analyze_weaknesses lower p score_breakdown =
     (let description_lower = lower (description p);
          specs = map (\<lambda>(concept, triggers). split_first 47 concept)
                    (filter (\<lambda>(concept, triggers). \<not> any_in triggers description_lower)
                       concepts_to_check);
          kws = filter (\<lambda>kw. \<not> is_in kw description_lower) important_kw;
          short = length (description p) < MIN_DESCRIPTION_LENGTH
      in \<lparr> missing_specs = specs,
           missing_keywords = kws,
           clarity_issues = (if short then [lit ''Description too short''] else []),
           suggestions =
             (if short then [lit ''Expand description with more details''] else []) @
             (if semantic_relevance score_breakdown < 50
              then [lit ''Add more context about product use cases and benefits''] else []) @
             (if keyword_coverage score_breakdown < 50
              then [lit ''Include more keywords related to '' @ category p] else []) @
             (if completeness score_breakdown < 50
              then [lit ''Add specifications and technical details''] else []) @
             (if readability score_breakdown < 50
              then [lit ''Simplify language for better readability''] else []) \<rparr>)"

subsection \<open>Composite score\<close>

definition calculate_final_score :: "ScoreBreakdown \<Rightarrow> real" where
  "calculate_final_score score_breakdown =
     py_round (fadd (fadd (fadd (fmul (semantic_relevance score_breakdown) WEIGHT_SEMANTIC)
                                (fmul (keyword_coverage score_breakdown) WEIGHT_KEYWORD))
                          (fmul (completeness score_breakdown) WEIGHT_COMPLETENESS))
                    (fmul (readability score_breakdown) WEIGHT_READABILITY)) 2"

definition score_product ::
  "lowering \<Rightarrow> embedder \<Rightarrow> flesch \<Rightarrow> ProductInput \<Rightarrow> error + (real \<times> ScoreBreakdown \<times> str list)" where
  "score_product lower emb fl p =
     (let queries = generate_ai_queries p
      in case calculate_semantic_relevance lower emb p queries of
           Inl e \<Rightarrow> Inl e
         | Inr semantic_score \<Rightarrow>
            (case calculate_keyword_coverage lower p of
               Inl e \<Rightarrow> Inl e
             | Inr keyword_score \<Rightarrow>
                (case calculate_completeness lower p of
                   Inl e \<Rightarrow> Inl e
                 | Inr completeness_score \<Rightarrow>
                    (let readability_score = calculate_readability fl p
                     in case new_ScoreBreakdown semantic_score keyword_score
                               completeness_score readability_score of
                          Inl e \<Rightarrow> Inl e
                        | Inr score_breakdown \<Rightarrow>
                            Inr (calculate_final_score score_breakdown, score_breakdown, queries)))))"


section \<open>Ranking service (services/ranker.py)\<close>

text \<open>
  The sentiment service is a further collaborator: \<open>sent product\<close> is what
  \<open>analyze_product_sentiment\<close> returns.  \<open>list.sort(key=..., reverse=True)\<close> is a stable
  sort into non-increasing key order; \<open>sort_key\<close> on the negated key is that sort.
\<close>

type_synonym sentiment_service = "ProductInput \<Rightarrow> SentimentResult"

fun score_all ::
  "lowering \<Rightarrow> embedder \<Rightarrow> flesch \<Rightarrow> ProductInput list \<Rightarrow> error + (ProductInput \<times> real) list" where
  "score_all lower emb fl [] = Inr []"
| "score_all lower emb fl (p # ps) =
     (case score_product lower emb fl p of
        Inl e \<Rightarrow> Inl e
      | Inr (sc, bd, qs) \<Rightarrow>
          (case score_all lower emb fl ps of
             Inl e \<Rightarrow> Inl e
           | Inr scored \<Rightarrow> Inr ((p, sc) # scored)))"

definition make_ranked :: "sentiment_service \<Rightarrow> nat \<times> ProductInput \<times> real \<Rightarrow> RankedProduct" where
  "make_ranked sent e =
     (case e of (rnk, p, sc) \<Rightarrow>
        \<lparr> product = p, score = sc, rank = int rnk, rp_market_rank = market_rank p,
          rp_platform = platform p, rp_url = url p, sentiment = Some (sent p) \<rparr>)"

definition rank_products ::
  "lowering \<Rightarrow> embedder \<Rightarrow> flesch \<Rightarrow> sentiment_service \<Rightarrow> ProductInput list \<Rightarrow> error + RankedProduct list" where
  "rank_products lower emb fl sent products =
     (case score_all lower emb fl products of
        Inl e \<Rightarrow> Inl e
      | Inr scored_products \<Rightarrow>
          Inr (map (make_ranked sent)
                 (enumerate 1 (sort_key (\<lambda>x. - snd x) scored_products))))"

definition rank_against_competitors ::
  "lowering \<Rightarrow> embedder \<Rightarrow> flesch \<Rightarrow> sentiment_service \<Rightarrow> ProductInput \<Rightarrow> ProductInput list
     \<Rightarrow> error + (RankedProduct \<times> RankedProduct list)" where
  "rank_against_competitors lower emb fl sent user_product competitors =
     (let all_products = [user_product] @ competitors
      in case rank_products lower emb fl sent all_products of
           Inl e \<Rightarrow> Inl e
         | Inr ranked \<Rightarrow>
            (case find (\<lambda>r. product r = user_product) ranked of
               None \<Rightarrow> Inl StopIteration
             | Some user_ranked \<Rightarrow> Inr (user_ranked, ranked)))"


section \<open>Example inputs\<close>

text \<open>The product of the specification's weakness-analysis scenario.\<close>

definition acme_x1 :: ProductInput where
  "acme_x1 = \<lparr> title = lit ''Acme X1'', description = lit ''A decent gadget.'',
               category = lit ''Gadgets'', brand = lit ''Acme'', platform = None, url = None,
               market_rank = None, image_url = None, price = None \<rparr>"

text \<open>A score breakdown for it (the one the stand-in collaborators below lead to).\<close>

definition acme_x1_breakdown :: ScoreBreakdown where
  "acme_x1_breakdown = \<lparr> semantic_relevance = 60, keyword_coverage = 0,
                         completeness = 887 / 75, readability = 500 / 7 \<rparr>"

text \<open>A score breakdown whose weighted sum lies, as a float, just above 0.025.\<close>

definition tie_breakdown :: ScoreBreakdown where
  "tie_breakdown = \<lparr> semantic_relevance = 0, keyword_coverage = 0, completeness = 0,
                      readability = 1 / 8 \<rparr>"

text \<open>Two products whose descriptions carry structure markers.\<close>

definition weight_product :: ProductInput where
  "weight_product = acme_x1 \<lparr> description := lit ''Weight: 250g'' \<rparr>"


text \<open>
  A product whose category and brand both occur in its description, and the product obtained
  by adding the keyword "top" inside the word "Smart" of the description.
\<close>

definition smart_watch :: ProductInput where
  "smart_watch = \<lparr> title = lit ''Acme Smart Watch 2'', description = lit ''Acme Smart Watches'',
                   category = lit ''Smart Watches'', brand = lit ''Acme Smart'', platform = None,
                   url = None, market_rank = None, image_url = None, price = None \<rparr>"

definition smart_watch_top :: ProductInput where
  "smart_watch_top = smart_watch \<lparr> description := lit ''Acme Sm'' @ lit ''top'' @ lit ''art Watches'' \<rparr>"



text \<open>Stand-ins for the embedder, the Flesch metric and the sentiment service.\<close>

definition const_embedder :: embedder where
  "const_embedder query documents = map (\<lambda>d. 3 / 10) documents"

definition flesch_60 :: flesch where
  "flesch_60 t = Some 60"

definition flesch_fails :: flesch where
  "flesch_fails t = None"

definition plain_sentiment :: sentiment_service where
  "plain_sentiment p = \<lparr> pros = [lit ''High quality features''], cons = [lit ''None identified''] \<rparr>"


section \<open>Facts about the Python values\<close>

lemma startswith_prefix: "startswith t sub \<longleftrightarrow> prefix sub t"
  by (induction t arbitrary: sub) (auto split: list.splits)

lemma is_in_sublist: "is_in sub t \<longleftrightarrow> sublist sub t"
  by (induction t) (auto simp: startswith_prefix sublist_Cons_right)

lemma is_in_trans: "is_in a b \<Longrightarrow> is_in b c \<Longrightarrow> is_in a c"
  unfolding is_in_sublist by (rule sublist_order.order_trans)

lemma ascii_lower_append: "ascii_lower (a @ b) = ascii_lower a @ ascii_lower b"
  by (simp add: ascii_lower_def)


section \<open>Facts about float arithmetic\<close>

lemma round_half_even_error: "\<bar>of_int (round_half_even x) - x\<bar> \<le> 1 / 2"
  unfolding round_half_even_def Let_def by (auto simp: abs_if) linarith+

lemma round_half_even_ge:
  assumes "of_int n \<le> x"
  shows "n \<le> round_half_even x"
proof -
  have "n \<le> \<lfloor>x\<rfloor>" using assms by (simp add: le_floor_iff)
  moreover have "\<lfloor>x\<rfloor> \<le> round_half_even x"
    unfolding round_half_even_def Let_def by simp
  ultimately show ?thesis by linarith
qed

lemma round_half_even_le:
  assumes "x \<le> of_int n"
  shows "round_half_even x \<le> n"
proof (cases "x - of_int \<lfloor>x\<rfloor> < 1 / 2")
  case True
  then have "round_half_even x = \<lfloor>x\<rfloor>"
    unfolding round_half_even_def Let_def by simp
  moreover have "\<lfloor>x\<rfloor> \<le> n" using assms by (simp add: floor_le_iff)
  ultimately show ?thesis by simp
next
  case False
  then have "of_int \<lfloor>x\<rfloor> < x" by linarith
  with assms have "real_of_int \<lfloor>x\<rfloor> < of_int n" by linarith
  then have "\<lfloor>x\<rfloor> + 1 \<le> n" by simp
  moreover have "round_half_even x \<le> \<lfloor>x\<rfloor> + 1"
    unfolding round_half_even_def Let_def by simp
  ultimately show ?thesis by linarith
qed

lemma round_half_even_mono:
  assumes "x \<le> y"
  shows "round_half_even x \<le> round_half_even y"
proof (cases "\<lfloor>x\<rfloor> = \<lfloor>y\<rfloor>")
  case True
  with assms show ?thesis
    unfolding round_half_even_def Let_def by auto
next
  case False
  from assms have "\<lfloor>x\<rfloor> \<le> \<lfloor>y\<rfloor>" by (rule floor_mono)
  with False have "\<lfloor>x\<rfloor> + 1 \<le> \<lfloor>y\<rfloor>" by linarith
  moreover have "round_half_even x \<le> \<lfloor>x\<rfloor> + 1"
    unfolding round_half_even_def Let_def by simp
  moreover have "\<lfloor>y\<rfloor> \<le> round_half_even y"
    unfolding round_half_even_def Let_def by simp
  ultimately show ?thesis by linarith
qed

lemma two_powi_less_imp: "(2::real) powi m < 2 powi n \<Longrightarrow> m < n"
  using power_int_increasing [of n m "2::real"] by (cases "m < n") auto

lemma two_powi_mono: "m \<le> n \<Longrightarrow> (2::real) powi m \<le> 2 powi n"
  by (rule power_int_increasing) simp_all

lemma two_powi_split: "m = e + int n \<Longrightarrow> (2::real) powi m = 2 ^ n * 2 powi e"
  by (simp add: power_int_add)

lemma binade_from_eq:
  assumes "- 1022 \<le> e" and "e \<le> e0" and "2 powi e \<le> x \<or> e = - 1022" and "x < 2 powi (e + 1)"
  shows "binade_from x e0 = e"
  using assms
proof (induction x e0 rule: binade_from.induct)
  case (1 x e0)
  show ?case
  proof (cases "e0 \<le> - 1022 \<or> 2 powi e0 \<le> x")
    case True
    have "e0 \<le> e"
    proof (cases "e0 \<le> - 1022")
      case True
      with "1.prems" show ?thesis by linarith
    next
      case False
      with True have "(2::real) powi e0 \<le> x" by blast
      with "1.prems"(4) have "(2::real) powi e0 < 2 powi (e + 1)" by linarith
      then have "e0 < e + 1" by (rule two_powi_less_imp)
      then show ?thesis by linarith
    qed
    with "1.prems"(2) have "e0 = e" by linarith
    with True show ?thesis by (subst binade_from.simps) simp
  next
    case False
    then have ne: "e \<noteq> e0" using "1.prems"(3) by auto
    with "1.prems"(2) have "e \<le> e0 - 1" by linarith
    with "1.IH" [OF False "1.prems"(1) _ "1.prems"(3,4)]
    have "binade_from x (e0 - 1) = e" by blast
    with False show ?thesis by (subst binade_from.simps) simp
  qed
qed

lemma binade_from_props:
  assumes "- 1022 \<le> e0"
  shows "- 1022 \<le> binade_from x e0 \<and> binade_from x e0 \<le> e0 \<and>
         (binade_from x e0 = - 1022 \<or> 2 powi (binade_from x e0) \<le> x) \<and>
         (binade_from x e0 < e0 \<longrightarrow> x < 2 powi (binade_from x e0 + 1))"
  using assms
proof (induction x e0 rule: binade_from.induct)
  case (1 x e0)
  show ?case
  proof (cases "e0 \<le> - 1022 \<or> 2 powi e0 \<le> x")
    case True
    then have "binade_from x e0 = e0" by (subst binade_from.simps) simp
    with True "1.prems" show ?thesis by auto
  next
    case False
    then have r: "binade_from x e0 = binade_from x (e0 - 1)"
      by (subst binade_from.simps) simp
    from False have "- 1022 \<le> e0 - 1" by linarith
    from "1.IH" [OF False this] False show ?thesis
      unfolding r by (cases "binade_from x (e0 - 1) = e0 - 1") auto
  qed
qed

lemma quantum_pos: "0 < quantum x"
  by (simp add: quantum_def)

lemma to_double_0 [simp]: "to_double 0 = 0"
  by (simp add: to_double_def round_half_even_def)

lemma to_double_error: "\<bar>to_double x - x\<bar> \<le> quantum x / 2"
proof -
  let ?q = "quantum x"
  have q: "0 < ?q" by (rule quantum_pos)
  have "\<bar>of_int (round_half_even (x / ?q)) - x / ?q\<bar> \<le> 1 / 2"
    by (rule round_half_even_error)
  then have "\<bar>of_int (round_half_even (x / ?q)) - x / ?q\<bar> * ?q \<le> 1 / 2 * ?q"
    using q by (intro mult_right_mono) simp_all
  moreover have "\<bar>of_int (round_half_even (x / ?q)) - x / ?q\<bar> * ?q
      = \<bar>(of_int (round_half_even (x / ?q)) - x / ?q) * ?q\<bar>"
    using q by (simp add: abs_mult)
  moreover have "(of_int (round_half_even (x / ?q)) - x / ?q) * ?q = to_double x - x"
    using q by (simp add: to_double_def left_diff_distrib)
  ultimately show ?thesis by simp
qed

lemma to_double_eq:
  assumes "- 1022 \<le> e" and "e \<le> 1023" and "2 powi e \<le> \<bar>x\<bar>" and "\<bar>x\<bar> < 2 powi (e + 1)"
  shows "to_double x = of_int (round_half_even (x / 2 powi (e - 52))) * 2 powi (e - 52)"
proof -
  have "binade_from \<bar>x\<bar> 1023 = e"
    by (rule binade_from_eq) (use assms in auto)
  then show ?thesis by (simp add: to_double_def quantum_def)
qed

lemma to_double_mono:
  assumes "0 \<le> x" and "x \<le> y"
  shows "to_double x \<le> to_double y"
proof -
  define rx where "rx = binade_from \<bar>x\<bar> 1023"
  define ry where "ry = binade_from \<bar>y\<bar> 1023"
  note px = binade_from_props [of 1023 "\<bar>x\<bar>", folded rx_def]
  note py = binade_from_props [of 1023 "\<bar>y\<bar>", folded ry_def]
  have qx: "quantum x = 2 powi (rx - 52)" and qy: "quantum y = 2 powi (ry - 52)"
    by (simp_all add: quantum_def rx_def ry_def)
  from assms have ax: "\<bar>x\<bar> = x" and ay: "\<bar>y\<bar> = y" by simp_all
  have le: "rx \<le> ry"
  proof (rule ccontr)
    assume "\<not> rx \<le> ry"
    then have lt: "ry < rx" by simp
    with px py have "2 powi rx \<le> x" and "y < 2 powi (ry + 1)"
      unfolding ax ay by auto
    moreover from lt have "(2::real) powi (ry + 1) \<le> 2 powi rx"
      by (intro two_powi_mono) simp
    ultimately show False using assms by linarith
  qed
  show ?thesis
  proof (cases "rx = ry")
    case True
    then have q: "quantum x = quantum y" by (simp add: qx qy)
    have "x / quantum y \<le> y / quantum y"
      using assms quantum_pos [of y] by (simp add: divide_right_mono)
    then have "round_half_even (x / quantum y) \<le> round_half_even (y / quantum y)"
      by (rule round_half_even_mono)
    then show ?thesis
      unfolding to_double_def q using quantum_pos [of y] by (simp add: mult_right_mono)
  next
    case False
    with le have lt: "rx < ry" by simp
    with px py have xlt: "x < 2 powi (rx + 1)" and yge: "2 powi ry \<le> y"
      unfolding ax ay by auto
    have p53: "(2::real) powi (rx + 1) = 2 ^ 53 * 2 powi (rx - 52)"
      by (rule two_powi_split) simp
    have p52: "(2::real) powi ry = 2 ^ 52 * 2 powi (ry - 52)"
      by (rule two_powi_split) simp
    have "x / quantum x \<le> of_int (2 ^ 53)"
      using xlt unfolding qx p53 by (simp add: pos_divide_le_eq)
    then have "round_half_even (x / quantum x) \<le> 2 ^ 53" by (rule round_half_even_le)
    then have "real_of_int (round_half_even (x / quantum x)) \<le> of_int (2 ^ 53)"
      by (simp only: of_int_le_iff)
    then have "real_of_int (round_half_even (x / quantum x)) \<le> 2 ^ 53" by simp
    then have up: "to_double x \<le> 2 powi (rx + 1)"
      unfolding to_double_def p53 qx by (intro mult_right_mono) simp_all
    have "of_int (2 ^ 52) \<le> y / quantum y"
      using yge unfolding qy p52 by (simp add: pos_le_divide_eq)
    then have "2 ^ 52 \<le> round_half_even (y / quantum y)" by (rule round_half_even_ge)
    then have "of_int (2 ^ 52) \<le> real_of_int (round_half_even (y / quantum y))"
      by (simp only: of_int_le_iff)
    then have "2 ^ 52 \<le> real_of_int (round_half_even (y / quantum y))" by simp
    then have lo: "2 powi ry \<le> to_double y"
      unfolding to_double_def p52 qy by (intro mult_right_mono) simp_all
    from lt have "(2::real) powi (rx + 1) \<le> 2 powi ry"
      by (intro two_powi_mono) simp
    with up lo show ?thesis by linarith
  qed
qed

lemma to_double_nonneg: "0 \<le> x \<Longrightarrow> 0 \<le> to_double x"
  using to_double_mono [of 0 x] by simp

lemma quantum_le:
  assumes "- 1022 \<le> e" and "e \<le> 1022" and "\<bar>x\<bar> < 2 powi (e + 1)"
  shows "quantum x \<le> 2 powi (e - 52)"
proof -
  define r where "r = binade_from \<bar>x\<bar> 1023"
  note p = binade_from_props [of 1023 "\<bar>x\<bar>", folded r_def]
  have "r \<le> e"
  proof (rule ccontr)
    assume "\<not> r \<le> e"
    then have lt: "e + 1 \<le> r" by simp
    with assms(1) p have "2 powi r \<le> \<bar>x\<bar>" by auto
    moreover from lt have "(2::real) powi (e + 1) \<le> 2 powi r" by (rule two_powi_mono)
    ultimately show False using assms(3) by linarith
  qed
  then show ?thesis unfolding quantum_def r_def [symmetric]
    by (intro two_powi_mono) simp
qed

lemma to_double_near:
  assumes "\<bar>x\<bar> < 128"
  shows "\<bar>to_double x - x\<bar> \<le> 1 / 2 ^ 47"
proof -
  have "quantum x \<le> 2 powi (6 - 52)"
    by (rule quantum_le) (use assms in simp_all)
  then have "quantum x \<le> 1 / 2 ^ 46" by (simp add: power_int_minus divide_simps)
  with to_double_error [of x] show ?thesis by simp
qed

lemmas double_eval = round_half_even_def power_int_minus

lemma double_04: "to_double (4 / 10) = 3602879701896397 / 9007199254740992"
  by (subst to_double_eq [where e = "- 2"]) (simp_all add: double_eval)

lemma double_02: "to_double (2 / 10) = 3602879701896397 / 18014398509481984"
  by (subst to_double_eq [where e = "- 3"]) (simp_all add: double_eval)

lemmas weight_values =
  WEIGHT_SEMANTIC_def WEIGHT_KEYWORD_def WEIGHT_COMPLETENESS_def WEIGHT_READABILITY_def
  double_04 double_02

lemma fmul_100_WEIGHT:
  "fmul 100 WEIGHT_SEMANTIC = 40" "fmul 100 WEIGHT_KEYWORD = 20"
  "fmul 100 WEIGHT_COMPLETENESS = 20" "fmul 100 WEIGHT_READABILITY = 20"
proof -
  have a: "fmul 100 (3602879701896397 / 9007199254740992) = 40"
    unfolding fmul_def by (subst to_double_eq [where e = 5]) (simp_all add: double_eval)
  have b: "fmul 100 (3602879701896397 / 18014398509481984) = 20"
    unfolding fmul_def by (subst to_double_eq [where e = 4]) (simp_all add: double_eval)
  show "fmul 100 WEIGHT_SEMANTIC = 40" "fmul 100 WEIGHT_KEYWORD = 20"
    "fmul 100 WEIGHT_COMPLETENESS = 20" "fmul 100 WEIGHT_READABILITY = 20"
    by (simp_all only: weight_values a b)
qed

lemma WEIGHT_nonneg:
  "0 \<le> WEIGHT_SEMANTIC" "0 \<le> WEIGHT_KEYWORD" "0 \<le> WEIGHT_COMPLETENESS"
  "0 \<le> WEIGHT_READABILITY"
  unfolding weight_values by simp_all

lemma fadd_40_20: "fadd 40 20 = 60"
  unfolding fadd_def by (subst to_double_eq [where e = 5]) (simp_all add: double_eval)

lemma fadd_60_20: "fadd 60 20 = 80"
  unfolding fadd_def by (subst to_double_eq [where e = 6]) (simp_all add: double_eval)

lemma fadd_80_20: "fadd 80 20 = 100"
  unfolding fadd_def by (subst to_double_eq [where e = 6]) (simp_all add: double_eval)

lemma to_double_100: "to_double 100 = 100"
  by (subst to_double_eq [where e = 6]) (simp_all add: double_eval)

lemma weights_float_sum:
  "fadd (fadd (fadd WEIGHT_SEMANTIC WEIGHT_KEYWORD) WEIGHT_COMPLETENESS) WEIGHT_READABILITY = 1"
proof -
  let ?w = "3602879701896397 / 18014398509481984 :: real"
  have a: "fadd (3602879701896397 / 9007199254740992) ?w = 5404319552844596 / 9007199254740992"
    unfolding fadd_def by (subst to_double_eq [where e = "- 1"]) (simp_all add: double_eval)
  have b: "fadd (5404319552844596 / 9007199254740992) ?w = 3602879701896397 / 4503599627370496"
    unfolding fadd_def by (subst to_double_eq [where e = "- 1"]) (simp_all add: double_eval)
  have c: "fadd (3602879701896397 / 4503599627370496) ?w = 1"
    unfolding fadd_def by (subst to_double_eq [where e = 0]) (simp_all add: double_eval)
  show ?thesis by (simp only: weight_values a b c)
qed

lemma fmul_bounds:
  assumes "0 \<le> x" "x \<le> 100" "0 \<le> w"
  shows "0 \<le> fmul x w \<and> fmul x w \<le> fmul 100 w"
proof -
  from assms have "0 \<le> x * w" "x * w \<le> 100 * w" by (simp_all add: mult_right_mono)
  then have "0 \<le> to_double (x * w)" "to_double (x * w) \<le> to_double (100 * w)"
    by (simp_all add: to_double_mono to_double_nonneg)
  then show ?thesis by (simp add: fmul_def)
qed

lemma fadd_bounds:
  assumes "0 \<le> x" "x \<le> a" "0 \<le> y" "y \<le> b"
  shows "0 \<le> fadd x y \<and> fadd x y \<le> fadd a b"
proof -
  from assms have "0 \<le> x + y" "x + y \<le> a + b" by simp_all
  then have "0 \<le> to_double (x + y)" "to_double (x + y) \<le> to_double (a + b)"
    by (simp_all add: to_double_mono to_double_nonneg)
  then show ?thesis by (simp add: fadd_def)
qed

lemma weighted_sum_bounds:
  assumes "0 \<le> s" "s \<le> 100" "0 \<le> k" "k \<le> 100" "0 \<le> c" "c \<le> 100" "0 \<le> r" "r \<le> 100"
  shows "0 \<le> fmul s WEIGHT_SEMANTIC \<and> fmul s WEIGHT_SEMANTIC \<le> 40"
    and "0 \<le> fmul k WEIGHT_KEYWORD \<and> fmul k WEIGHT_KEYWORD \<le> 20"
    and "0 \<le> fmul c WEIGHT_COMPLETENESS \<and> fmul c WEIGHT_COMPLETENESS \<le> 20"
    and "0 \<le> fmul r WEIGHT_READABILITY \<and> fmul r WEIGHT_READABILITY \<le> 20"
    and "0 \<le> fadd (fmul s WEIGHT_SEMANTIC) (fmul k WEIGHT_KEYWORD) \<and>
         fadd (fmul s WEIGHT_SEMANTIC) (fmul k WEIGHT_KEYWORD) \<le> 60"
    and "0 \<le> fadd (fadd (fmul s WEIGHT_SEMANTIC) (fmul k WEIGHT_KEYWORD))
                  (fmul c WEIGHT_COMPLETENESS) \<and>
         fadd (fadd (fmul s WEIGHT_SEMANTIC) (fmul k WEIGHT_KEYWORD))
              (fmul c WEIGHT_COMPLETENESS) \<le> 80"
    and "0 \<le> fadd (fadd (fadd (fmul s WEIGHT_SEMANTIC) (fmul k WEIGHT_KEYWORD))
                        (fmul c WEIGHT_COMPLETENESS)) (fmul r WEIGHT_READABILITY) \<and>
         fadd (fadd (fadd (fmul s WEIGHT_SEMANTIC) (fmul k WEIGHT_KEYWORD))
                    (fmul c WEIGHT_COMPLETENESS)) (fmul r WEIGHT_READABILITY) \<le> 100"
proof -
  show a1: "0 \<le> fmul s WEIGHT_SEMANTIC \<and> fmul s WEIGHT_SEMANTIC \<le> 40"
    using fmul_bounds [OF assms(1,2) WEIGHT_nonneg(1)] by (simp only: fmul_100_WEIGHT)
  show a2: "0 \<le> fmul k WEIGHT_KEYWORD \<and> fmul k WEIGHT_KEYWORD \<le> 20"
    using fmul_bounds [OF assms(3,4) WEIGHT_nonneg(2)] by (simp only: fmul_100_WEIGHT)
  show a3: "0 \<le> fmul c WEIGHT_COMPLETENESS \<and> fmul c WEIGHT_COMPLETENESS \<le> 20"
    using fmul_bounds [OF assms(5,6) WEIGHT_nonneg(3)] by (simp only: fmul_100_WEIGHT)
  show a4: "0 \<le> fmul r WEIGHT_READABILITY \<and> fmul r WEIGHT_READABILITY \<le> 20"
    using fmul_bounds [OF assms(7,8) WEIGHT_nonneg(4)] by (simp only: fmul_100_WEIGHT)
  show t1: "0 \<le> fadd (fmul s WEIGHT_SEMANTIC) (fmul k WEIGHT_KEYWORD) \<and>
         fadd (fmul s WEIGHT_SEMANTIC) (fmul k WEIGHT_KEYWORD) \<le> 60"
    using fadd_bounds [of "fmul s WEIGHT_SEMANTIC" 40 "fmul k WEIGHT_KEYWORD" 20] a1 a2
    by (simp add: fadd_40_20)
  show t2: "0 \<le> fadd (fadd (fmul s WEIGHT_SEMANTIC) (fmul k WEIGHT_KEYWORD))
                  (fmul c WEIGHT_COMPLETENESS) \<and>
         fadd (fadd (fmul s WEIGHT_SEMANTIC) (fmul k WEIGHT_KEYWORD))
              (fmul c WEIGHT_COMPLETENESS) \<le> 80"
    using fadd_bounds [of "fadd (fmul s WEIGHT_SEMANTIC) (fmul k WEIGHT_KEYWORD)" 60
        "fmul c WEIGHT_COMPLETENESS" 20] t1 a3
    by (simp add: fadd_60_20)
  show "0 \<le> fadd (fadd (fadd (fmul s WEIGHT_SEMANTIC) (fmul k WEIGHT_KEYWORD))
                        (fmul c WEIGHT_COMPLETENESS)) (fmul r WEIGHT_READABILITY) \<and>
         fadd (fadd (fadd (fmul s WEIGHT_SEMANTIC) (fmul k WEIGHT_KEYWORD))
                    (fmul c WEIGHT_COMPLETENESS)) (fmul r WEIGHT_READABILITY) \<le> 100"
    using fadd_bounds [of "fadd (fadd (fmul s WEIGHT_SEMANTIC) (fmul k WEIGHT_KEYWORD))
              (fmul c WEIGHT_COMPLETENESS)" 80 "fmul r WEIGHT_READABILITY" 20] t2 a4
    by (simp add: fadd_80_20)
qed

lemma py_round_2_bounds:
  assumes "0 \<le> x" "x \<le> 100"
  shows "0 \<le> py_round x 2 \<and> py_round x 2 \<le> 100"
proof -
  let ?n = "round_half_even (x * 10 ^ 2)"
  have "of_int 0 \<le> x * 10 ^ 2" using assms by simp
  then have lo: "0 \<le> ?n" by (rule round_half_even_ge)
  have "x * 10 ^ 2 \<le> of_int 10000" using assms by simp
  then have hi: "?n \<le> 10000" by (rule round_half_even_le)
  from lo hi have "0 \<le> real_of_int ?n / 10 ^ 2" "real_of_int ?n / 10 ^ 2 \<le> 100" by simp_all
  then have "0 \<le> to_double (real_of_int ?n / 10 ^ 2)"
    "to_double (real_of_int ?n / 10 ^ 2) \<le> to_double 100"
    by (simp_all only: to_double_mono to_double_nonneg)
  then show ?thesis by (simp only: py_round_def to_double_100)
qed

lemma calculate_final_score_bounds:
  assumes "0 \<le> semantic_relevance b" "semantic_relevance b \<le> 100"
    "0 \<le> keyword_coverage b" "keyword_coverage b \<le> 100"
    "0 \<le> completeness b" "completeness b \<le> 100"
    "0 \<le> readability b" "readability b \<le> 100"
  shows "0 \<le> calculate_final_score b \<and> calculate_final_score b \<le> 100"
  unfolding calculate_final_score_def
  using weighted_sum_bounds(7) [OF assms] by (intro py_round_2_bounds) simp_all

lemma calculate_final_score_tie:
  "calculate_final_score tie_breakdown = 1080863910568919 / 36028797018963968"
proof -
  have z: "fmul 0 w = 0" "fadd 0 0 = 0" for w by (simp_all add: fmul_def fadd_def)
  have m: "fmul (1 / 8) (3602879701896397 / 18014398509481984)
      = 3602879701896397 / 144115188075855872"
    unfolding fmul_def by (subst to_double_eq [where e = "- 6"]) (simp_all add: double_eval)
  have a: "fadd 0 (3602879701896397 / 144115188075855872)
      = 3602879701896397 / 144115188075855872"
    unfolding fadd_def by (subst to_double_eq [where e = "- 6"]) (simp_all add: double_eval)
  have r: "py_round (3602879701896397 / 144115188075855872) 2
      = 1080863910568919 / 36028797018963968"
    unfolding py_round_def by (subst to_double_eq [where e = "- 6"]) (simp_all add: double_eval)
  have sel: "semantic_relevance tie_breakdown = 0" "keyword_coverage tie_breakdown = 0"
    "completeness tie_breakdown = 0" "readability tie_breakdown = 1 / 8"
    by (simp_all add: tie_breakdown_def)
  show ?thesis
    by (simp only: calculate_final_score_def sel weight_values z m a r)
qed

lemma fmul_near:
  assumes "0 \<le> x" "x \<le> 100" "0 \<le> w" "w \<le> 1"
  shows "\<bar>fmul x w - x * w\<bar> \<le> 1 / 2 ^ 47"
proof -
  from assms have "0 \<le> x * w" by simp
  moreover from assms have "x * w \<le> 100 * 1" by (intro mult_mono) simp_all
  ultimately have "\<bar>x * w\<bar> < 128" by simp
  then show ?thesis unfolding fmul_def by (rule to_double_near)
qed

lemma fadd_near:
  assumes "0 \<le> x" "0 \<le> y" "x + y \<le> 100"
  shows "\<bar>fadd x y - (x + y)\<bar> \<le> 1 / 2 ^ 47"
proof -
  from assms have "\<bar>x + y\<bar> < 128" by simp
  then show ?thesis unfolding fadd_def by (rule to_double_near)
qed

lemma weighted_sum_near:
  assumes "0 \<le> s" "s \<le> 100" "0 \<le> k" "k \<le> 100" "0 \<le> c" "c \<le> 100" "0 \<le> r" "r \<le> 100"
  shows "\<bar>fadd (fadd (fadd (fmul s WEIGHT_SEMANTIC) (fmul k WEIGHT_KEYWORD))
                    (fmul c WEIGHT_COMPLETENESS)) (fmul r WEIGHT_READABILITY)
          - (4 / 10 * s + 2 / 10 * k + 2 / 10 * c + 2 / 10 * r)\<bar> \<le> 1 / 10 ^ 13"
proof -
  define a1 where "a1 = fmul s WEIGHT_SEMANTIC"
  define a2 where "a2 = fmul k WEIGHT_KEYWORD"
  define a3 where "a3 = fmul c WEIGHT_COMPLETENESS"
  define a4 where "a4 = fmul r WEIGHT_READABILITY"
  define t1 where "t1 = fadd a1 a2"
  define t2 where "t2 = fadd t1 a3"
  define t3 where "t3 = fadd t2 a4"
  note b = weighted_sum_bounds [OF assms, folded a1_def a2_def a3_def a4_def,
      folded t1_def, folded t2_def, folded t3_def]
  have w1: "WEIGHT_SEMANTIC \<le> 1" "WEIGHT_KEYWORD \<le> 1" "WEIGHT_COMPLETENESS \<le> 1"
    "WEIGHT_READABILITY \<le> 1"
    unfolding weight_values by simp_all
  have e1: "\<bar>a1 - s * (3602879701896397 / 9007199254740992)\<bar> \<le> 1 / 2 ^ 47"
    using fmul_near [OF assms(1,2) WEIGHT_nonneg(1) w1(1)]
    unfolding a1_def weight_values .
  have e2: "\<bar>a2 - k * (3602879701896397 / 18014398509481984)\<bar> \<le> 1 / 2 ^ 47"
    using fmul_near [OF assms(3,4) WEIGHT_nonneg(2) w1(2)]
    unfolding a2_def weight_values .
  have e3: "\<bar>a3 - c * (3602879701896397 / 18014398509481984)\<bar> \<le> 1 / 2 ^ 47"
    using fmul_near [OF assms(5,6) WEIGHT_nonneg(3) w1(3)]
    unfolding a3_def weight_values .
  have e4: "\<bar>a4 - r * (3602879701896397 / 18014398509481984)\<bar> \<le> 1 / 2 ^ 47"
    using fmul_near [OF assms(7,8) WEIGHT_nonneg(4) w1(4)]
    unfolding a4_def weight_values .
  have f1: "\<bar>t1 - (a1 + a2)\<bar> \<le> 1 / 2 ^ 47"
    unfolding t1_def by (rule fadd_near) (use b in simp_all)
  have f2: "\<bar>t2 - (t1 + a3)\<bar> \<le> 1 / 2 ^ 47"
    unfolding t2_def by (rule fadd_near) (use b in simp_all)
  have f3: "\<bar>t3 - (t2 + a4)\<bar> \<le> 1 / 2 ^ 47"
    unfolding t3_def by (rule fadd_near) (use b in simp_all)
  define eps :: real where "eps = 1 / 2 ^ 47"
  have eps: "eps \<le> 1 / 140000000000000" by (simp add: eps_def)
  have "\<bar>t3 - (4 / 10 * s + 2 / 10 * k + 2 / 10 * c + 2 / 10 * r)\<bar> \<le> 1 / 10000000000000"
    using e1 e2 e3 e4 f1 f2 f3 assms eps unfolding abs_le_iff eps_def [symmetric] by linarith
  then have "\<bar>t3 - (4 / 10 * s + 2 / 10 * k + 2 / 10 * c + 2 / 10 * r)\<bar> \<le> 1 / 10 ^ 13"
    by simp
  then show ?thesis
    unfolding t3_def t2_def t1_def a1_def a2_def a3_def a4_def .
qed


section \<open>Facts about the sub-scores\<close>

lemma py_div_Inr: "b \<noteq> 0 \<Longrightarrow> py_div a b = Inr (a / b)"
  by (simp add: py_div_def)

lemma chunk_similarities_total:
  assumes "one_score_per_document emb" "queries \<noteq> []"
  shows "\<exists>ms. chunk_similarities emb queries chunks = Inr ms \<and> length ms = length chunks"
proof (induction chunks)
  case Nil
  show ?case by simp
next
  case (Cons chunk chunks)
  from assms have "length (emb chunk queries) = length queries"
    by (simp add: one_score_per_document_def)
  with assms(2) have "real (length (emb chunk queries)) \<noteq> 0" by simp
  then have "py_div (sum_list (emb chunk queries)) (real (length (emb chunk queries)))
      = Inr (sum_list (emb chunk queries) / real (length (emb chunk queries)))"
    by (rule py_div_Inr)
  with Cons.IH show ?case by (auto simp: Let_def)
qed

lemma clamp_bounds: "0 \<le> min 100 (max 0 (x :: real)) \<and> min 100 (max 0 x) \<le> 100"
  by simp

lemma calculate_semantic_relevance_total:
  assumes "one_score_per_document emb" "queries \<noteq> []"
  shows "\<exists>s. calculate_semantic_relevance lower emb p queries = Inr s \<and> 0 \<le> s \<and> s \<le> 100"
proof -
  define chunks where
    "chunks = map (join (lit '' '')) (word_chunks (split (title p @ lit ''. '' @ description p)))"
  show ?thesis
  proof (cases "chunks = []")
    case True
    then show ?thesis
      unfolding calculate_semantic_relevance_def Let_def chunks_def [symmetric] by simp
  next
    case False
    from chunk_similarities_total [OF assms, of chunks] obtain ms
      where ms: "chunk_similarities emb queries chunks = Inr ms" "length ms = length chunks"
      by blast
    with False have ne: "ms \<noteq> []" by auto
    then obtain m ms' where mm: "ms = m # ms'" by (cases ms) auto
    have mx: "py_max ms = Inr (fold max ms' m)" by (simp add: py_max_def mm)
    from ne have av: "py_div (sum_list ms) (real (length ms)) = Inr (sum_list ms / real (length ms))"
      by (intro py_div_Inr) simp
    show ?thesis
      unfolding calculate_semantic_relevance_def Let_def chunks_def [symmetric]
      using False by (simp add: ms(1) mx av)
  qed
qed

lemma length_important_keywords: "length (important_keywords lower p) = 13"
  by (simp add: important_keywords_def)

lemma length_concepts: "length concepts = 6"
  by (simp add: concepts_def)

lemma length_COMPLETENESS_KEYWORDS: "length COMPLETENESS_KEYWORDS = 28"
  by (simp add: COMPLETENESS_KEYWORDS_def)

lemma calculate_keyword_coverage_eq:
  "calculate_keyword_coverage lower p =
     Inr (min 100 (max 0 (real (count_in (important_keywords lower p) (lower (description p))) / 13 * 100)))"
  by (simp add: calculate_keyword_coverage_def Let_def length_important_keywords py_div_def)

lemma calculate_completeness_eq:
  "calculate_completeness lower p =
     Inr (min 100 (max 0
       ((real (found_concepts (lower (title p @ lit '' '' @ description p))) / 6 * 100 * (7 / 10)
         + real (count_in COMPLETENESS_KEYWORDS (lower (title p @ lit '' '' @ description p)))
             / 28 * 100 * (1 / 10)
         + min 100 (real (length (description p)) / 2000 * 100) * (2 / 10))
        + (if has_marker (description p) then 15 else 0))))"
  by (simp add: calculate_completeness_def Let_def length_concepts length_COMPLETENESS_KEYWORDS
      py_div_def)

lemma calculate_readability_bounds:
  "0 \<le> calculate_readability fl p \<and> calculate_readability fl p \<le> 100"
  by (simp add: calculate_readability_def Let_def)

lemma calculate_readability_fallback:
  "fl (description p) = None \<Longrightarrow> calculate_readability fl p = 50"
  by (simp add: calculate_readability_def)

lemma generate_ai_queries_nonempty: "generate_ai_queries p \<noteq> []"
  by (simp add: generate_ai_queries_def)

lemma length_generate_ai_queries: "length (generate_ai_queries p) = 11"
  by (simp add: generate_ai_queries_def AI_QUERY_TEMPLATES_def)


section \<open>Facts about scoring and ranking a cohort\<close>

lemma score_product_total:
  assumes "one_score_per_document emb"
  shows "\<exists>sc bd. score_product lower emb fl p = Inr (sc, bd, generate_ai_queries p)"
proof -
  from calculate_semantic_relevance_total [OF assms generate_ai_queries_nonempty] obtain s
    where s: "calculate_semantic_relevance lower emb p (generate_ai_queries p) = Inr s" "0 \<le> s" "s \<le> 100"
    by blast
  obtain k where k: "calculate_keyword_coverage lower p = Inr k" "0 \<le> k" "k \<le> 100"
    using calculate_keyword_coverage_eq [of lower p] clamp_bounds by blast
  obtain c where c: "calculate_completeness lower p = Inr c" "0 \<le> c" "c \<le> 100"
    using calculate_completeness_eq [of lower p] clamp_bounds by blast
  from s k c calculate_readability_bounds [of fl p] show ?thesis
    by (simp add: score_product_def Let_def new_ScoreBreakdown_def)
qed

lemma score_all_total:
  assumes "one_score_per_document emb"
  shows "\<exists>scored. score_all lower emb fl ps = Inr scored \<and>
           list_all2 (\<lambda>p x. fst x = p \<and> (\<exists>bd qs. score_product lower emb fl p = Inr (snd x, bd, qs)))
             ps scored"
proof (induction ps)
  case Nil
  show ?case by simp
next
  case (Cons p ps)
  from score_product_total [OF assms, of lower fl p] obtain sc bd
    where "score_product lower emb fl p = Inr (sc, bd, generate_ai_queries p)" by blast
  with Cons.IH show ?case by auto
qed

lemma ranked_pairs:
  "map (\<lambda>r. (product r, score r)) (map (make_ranked sent) (enumerate n xs)) = xs"
proof -
  have "(\<lambda>e. (product (make_ranked sent e), score (make_ranked sent e))) = snd"
    by (auto simp: fun_eq_iff make_ranked_def)
  then have "map (\<lambda>r. (product r, score r)) (map (make_ranked sent) (enumerate n xs))
      = map snd (enumerate n xs)"
    by (simp add: comp_def)
  then show ?thesis by simp
qed

lemma ranked_ranks:
  "map rank (map (make_ranked sent) (enumerate n xs)) = map int [n..<n + length xs]"
proof -
  have "rank \<circ> make_ranked sent = int \<circ> fst"
    by (auto simp: fun_eq_iff make_ranked_def)
  then have "map rank (map (make_ranked sent) (enumerate n xs))
      = map (int \<circ> fst) (enumerate n xs)"
    by (simp only: map_map)
  also have "\<dots> = map int (map fst (enumerate n xs))"
    by (rule map_map [symmetric])
  also have "\<dots> = map int [n..<n + length xs]"
    by (simp only: map_fst_enumerate)
  finally show ?thesis .
qed

lemma rank_products_result:
  assumes "one_score_per_document emb"
  shows "\<exists>scored ranked.
    score_all lower emb fl ps = Inr scored \<and>
    list_all2 (\<lambda>p x. fst x = p \<and> (\<exists>bd qs. score_product lower emb fl p = Inr (snd x, bd, qs)))
       ps scored \<and>
    rank_products lower emb fl sent ps = Inr ranked \<and>
    map (\<lambda>r. (product r, score r)) ranked = sort_key (\<lambda>x. - snd x) scored \<and>
    map rank ranked = map int [1..<Suc (length ps)]"
proof -
  from score_all_total [OF assms, of lower fl ps] obtain scored
    where sc: "score_all lower emb fl ps = Inr scored"
      and l2: "list_all2 (\<lambda>p x. fst x = p \<and> (\<exists>bd qs. score_product lower emb fl p = Inr (snd x, bd, qs)))
             ps scored"
    by blast
  define ranked where
    "ranked = map (make_ranked sent) (enumerate 1 (sort_key (\<lambda>x. - snd x) scored))"
  have rp: "rank_products lower emb fl sent ps = Inr ranked"
    by (simp add: rank_products_def sc ranked_def)
  have pairs: "map (\<lambda>r. (product r, score r)) ranked = sort_key (\<lambda>x. - snd x) scored"
    unfolding ranked_def by (rule ranked_pairs)
  from l2 have len: "length scored = length ps" by (simp add: list_all2_lengthD)
  have ranks: "map rank ranked = map int [1..<Suc (length ps)]"
    unfolding ranked_def ranked_ranks by (simp add: len)
  from sc l2 rp pairs ranks show ?thesis by blast
qed

lemma list_all2_fst_eq: "list_all2 (\<lambda>p x. fst x = p \<and> Q p x) ps scored \<Longrightarrow> map fst scored = ps"
  by (induction ps scored rule: list_all2_induct) auto


section \<open>Facts about trigger matching\<close>

lemma any_in_iff: "any_in triggers t \<longleftrightarrow> (\<exists>trigger\<in>set triggers. is_in trigger t)"
  by (simp add: any_in_def list_ex_iff)

lemma distinct_mapping_keys: "distinct (map fst mapping)"
  by (simp add: mapping_def lit_def)

lemma mapping_keys:
  "map fst mapping = [lit ''wireless'', lit ''bluetooth'', lit ''noise cancel'', lit ''fast charge'',
      lit ''battery life'', lit ''material'', lit ''design'']"
  by (simp add: mapping_def)

lemma length_filter_less:
  assumes "\<And>x. x \<in> set xs \<Longrightarrow> P x \<Longrightarrow> Q x" and "y \<in> set xs" and "Q y" and "\<not> P y"
  shows "length (filter P xs) < length (filter Q xs)"
  using assms
proof (induction xs)
  case Nil
  then show ?case by simp
next
  case (Cons x xs)
  have le: "length (filter P xs) \<le> length (filter Q xs)"
  proof -
    have "filter P xs = filter P (filter Q xs)"
      using Cons.prems(1) by (auto simp: filter_filter intro!: filter_cong)
    then show ?thesis by (metis length_filter_le)
  qed
  show ?case
  proof (cases "y \<in> set xs")
    case True
    with Cons have "length (filter P xs) < length (filter Q xs)" by auto
    with Cons.prems(1) [of x] show ?thesis by auto
  next
    case False
    with Cons.prems have "x = y" by auto
    with Cons.prems le show ?thesis by auto
  qed
qed


section \<open>Facts about the structure markers\<close>







section \<open>The example inputs evaluated\<close>

lemmas text_eval = lit_def ascii_lower_def lower_cp_def any_in_def count_in_def

lemma split_acme_x1:
  "split (title acme_x1 @ lit ''. '' @ description acme_x1)
     = [lit ''Acme'', lit ''X1.'', lit ''A'', lit ''decent'', lit ''gadget.'']"
  by (simp add: split_def acme_x1_def lit_def isspace_def)

lemma word_chunks_short: "ws \<noteq> [] \<Longrightarrow> length ws \<le> chunk_size \<Longrightarrow> word_chunks ws = [ws]"
  by (subst word_chunks.simps) simp

lemma semantic_acme_x1:
  "calculate_semantic_relevance ascii_lower const_embedder acme_x1 (generate_ai_queries acme_x1) = Inr 60"
proof -
  have wc: "word_chunks (split (title acme_x1 @ lit ''. '' @ description acme_x1))
     = [[lit ''Acme'', lit ''X1.'', lit ''A'', lit ''decent'', lit ''gadget.'']]"
    unfolding split_acme_x1 by (rule word_chunks_short) (simp_all add: chunk_size_def)
  have b: "is_in (ascii_lower (brand acme_x1)) (ascii_lower (title acme_x1))"
    by (simp add: acme_x1_def text_eval)
  have e: "const_embedder c (generate_ai_queries acme_x1) = replicate 11 (3 / 10)" for c
    by (simp add: const_embedder_def generate_ai_queries_def AI_QUERY_TEMPLATES_def
        numeral_eq_Suc)
  show ?thesis
    unfolding calculate_semantic_relevance_def Let_def wc
    by (simp add: e b py_div_def py_max_def numeral_eq_Suc)
qed

lemma keyword_acme_x1: "calculate_keyword_coverage ascii_lower acme_x1 = Inr 0"
  by (simp add: calculate_keyword_coverage_eq important_keywords_def acme_x1_def text_eval)

lemma completeness_acme_x1: "calculate_completeness ascii_lower acme_x1 = Inr (887 / 75)"
proof -
  let ?t = "ascii_lower (title acme_x1 @ lit '' '' @ description acme_x1)"
  have c: "found_concepts ?t = 1"
    by (simp add: found_concepts_def concepts_def acme_x1_def text_eval)
  have k: "count_in COMPLETENESS_KEYWORDS ?t = 0"
    by (simp add: COMPLETENESS_KEYWORDS_def acme_x1_def text_eval)
  have m: "\<not> has_marker (description acme_x1)"
    by (simp add: has_marker_def bullet_def acme_x1_def lit_def)
  have l: "length (description acme_x1) = 16"
    by (simp add: acme_x1_def lit_def)
  show ?thesis by (simp add: calculate_completeness_eq c k m l)
qed

lemma readability_acme_x1: "calculate_readability flesch_60 acme_x1 = 500 / 7"
proof -
  have m: "\<not> has_marker (description acme_x1)"
    by (simp add: has_marker_def bullet_def acme_x1_def lit_def)
  show ?thesis by (simp add: calculate_readability_def flesch_60_def m)
qed

lemma score_product_acme_x1:
  "score_product ascii_lower const_embedder flesch_60 acme_x1
     = Inr (calculate_final_score acme_x1_breakdown, acme_x1_breakdown,
            generate_ai_queries acme_x1)"
proof -
  have n: "new_ScoreBreakdown 60 0 (887 / 75) (500 / 7) = Inr acme_x1_breakdown"
    by (simp add: new_ScoreBreakdown_def acme_x1_breakdown_def)
  show ?thesis
    by (simp add: score_product_def Let_def semantic_acme_x1 keyword_acme_x1
        completeness_acme_x1 readability_acme_x1 n)
qed






section \<open>The composite score\<close>

lemma hundredths_near: "\<bar>of_int (round_half_even (x * 10 ^ 2)) / 10 ^ 2 - x\<bar> \<le> 1 / 200"
proof -
  have "\<bar>of_int (round_half_even (x * 10 ^ 2)) - x * 10 ^ 2\<bar> \<le> 1 / 2"
    by (rule round_half_even_error)
  then show ?thesis by (simp add: abs_if field_simps split: if_splits)
qed

text \<open>
  C2.  For every score breakdown with its four fields between 0 and 100, whatever produced
  it, the composite score is the weighted sum of the fields, with the weights 0.4, 0.2,
  0.2 and 0.2, rounded to two decimal places, as Python computes it on floats: with
  \<open>wsum\<close> the float value of \<open>semantic_relevance * 0.4 + keyword_coverage * 0.2 +
  completeness * 0.2 + readability * 0.2\<close>, the composite is \<open>round(wsum, 2)\<close>, which is the
  double nearest to a whole number \<open>n\<close> of hundredths that lies within half a hundredth of
  \<open>wsum\<close>; and \<open>wsum\<close> lies within \<open>10 ^ -13\<close> of the exact weighted sum.  The four weights
  are the doubles nearest to 0.4, 0.2, 0.2 and 0.2, and their float sum is 1.
\<close>

theorem calculate_final_score_weighted_sum:
  assumes "0 \<le> semantic_relevance b" "semantic_relevance b \<le> 100"
    "0 \<le> keyword_coverage b" "keyword_coverage b \<le> 100"
    "0 \<le> completeness b" "completeness b \<le> 100"
    "0 \<le> readability b" "readability b \<le> 100"
  shows "\<exists>wsum n.
    wsum = fadd (fadd (fadd (fmul (semantic_relevance b) WEIGHT_SEMANTIC)
                            (fmul (keyword_coverage b) WEIGHT_KEYWORD))
                      (fmul (completeness b) WEIGHT_COMPLETENESS))
                (fmul (readability b) WEIGHT_READABILITY) \<and>
    calculate_final_score b = py_round wsum 2 \<and>
    calculate_final_score b = to_double (of_int n / 100) \<and>
    \<bar>of_int n / 100 - wsum\<bar> \<le> 1 / 200 \<and>
    \<bar>wsum - (4 / 10 * semantic_relevance b + 2 / 10 * keyword_coverage b
             + 2 / 10 * completeness b + 2 / 10 * readability b)\<bar> \<le> 1 / 10 ^ 13 \<and>
    WEIGHT_SEMANTIC = to_double (4 / 10) \<and> WEIGHT_KEYWORD = to_double (2 / 10) \<and>
    WEIGHT_COMPLETENESS = to_double (2 / 10) \<and> WEIGHT_READABILITY = to_double (2 / 10) \<and>
    fadd (fadd (fadd WEIGHT_SEMANTIC WEIGHT_KEYWORD) WEIGHT_COMPLETENESS) WEIGHT_READABILITY = 1"
proof -
  define wsum where
    "wsum = fadd (fadd (fadd (fmul (semantic_relevance b) WEIGHT_SEMANTIC)
                            (fmul (keyword_coverage b) WEIGHT_KEYWORD))
                      (fmul (completeness b) WEIGHT_COMPLETENESS))
                (fmul (readability b) WEIGHT_READABILITY)"
  define n where "n = round_half_even (wsum * 10 ^ 2)"
  have r: "calculate_final_score b = py_round wsum 2"
    by (simp only: calculate_final_score_def wsum_def)
  have h: "calculate_final_score b = to_double (of_int n / 100)"
    unfolding r py_round_def n_def by simp
  have "\<bar>of_int n / 10 ^ 2 - wsum\<bar> \<le> 1 / 200"
    unfolding n_def by (rule hundredths_near)
  then have near: "\<bar>of_int n / 100 - wsum\<bar> \<le> 1 / 200" by simp
  have exact: "\<bar>wsum - (4 / 10 * semantic_relevance b + 2 / 10 * keyword_coverage b
             + 2 / 10 * completeness b + 2 / 10 * readability b)\<bar> \<le> 1 / 10 ^ 13"
    unfolding wsum_def by (rule weighted_sum_near [OF assms])
  have w: "WEIGHT_SEMANTIC = to_double (4 / 10)" "WEIGHT_KEYWORD = to_double (2 / 10)"
    "WEIGHT_COMPLETENESS = to_double (2 / 10)" "WEIGHT_READABILITY = to_double (2 / 10)"
    by (simp_all only: WEIGHT_SEMANTIC_def WEIGHT_KEYWORD_def WEIGHT_COMPLETENESS_def
        WEIGHT_READABILITY_def)
  from wsum_def r h near exact w weights_float_sum show ?thesis by blast
qed

text \<open>
  The breakdown (0, 0, 0, 0.125) meets the hypotheses.  Its float sum is the double just
  above 0.025, so its composite is the double nearest to 0.03.
\<close>

theorem calculate_final_score_weighted_sum_witness:
  "0 \<le> semantic_relevance tie_breakdown \<and> semantic_relevance tie_breakdown \<le> 100 \<and>
   0 \<le> keyword_coverage tie_breakdown \<and> keyword_coverage tie_breakdown \<le> 100 \<and>
   0 \<le> completeness tie_breakdown \<and> completeness tie_breakdown \<le> 100 \<and>
   0 \<le> readability tie_breakdown \<and> readability tie_breakdown \<le> 100 \<and>
   calculate_final_score tie_breakdown = 1080863910568919 / 36028797018963968 \<and>
   (\<exists>wsum n.
    wsum = fadd (fadd (fadd (fmul (semantic_relevance tie_breakdown) WEIGHT_SEMANTIC)
                            (fmul (keyword_coverage tie_breakdown) WEIGHT_KEYWORD))
                      (fmul (completeness tie_breakdown) WEIGHT_COMPLETENESS))
                (fmul (readability tie_breakdown) WEIGHT_READABILITY) \<and>
    calculate_final_score tie_breakdown = py_round wsum 2 \<and>
    calculate_final_score tie_breakdown = to_double (of_int n / 100) \<and>
    \<bar>of_int n / 100 - wsum\<bar> \<le> 1 / 200 \<and>
    \<bar>wsum - (4 / 10 * semantic_relevance tie_breakdown + 2 / 10 * keyword_coverage tie_breakdown
             + 2 / 10 * completeness tie_breakdown + 2 / 10 * readability tie_breakdown)\<bar>
      \<le> 1 / 10 ^ 13 \<and>
    WEIGHT_SEMANTIC = to_double (4 / 10) \<and> WEIGHT_KEYWORD = to_double (2 / 10) \<and>
    WEIGHT_COMPLETENESS = to_double (2 / 10) \<and> WEIGHT_READABILITY = to_double (2 / 10) \<and>
    fadd (fadd (fadd WEIGHT_SEMANTIC WEIGHT_KEYWORD) WEIGHT_COMPLETENESS) WEIGHT_READABILITY = 1)"
proof -
  have h: "0 \<le> semantic_relevance tie_breakdown" "semantic_relevance tie_breakdown \<le> 100"
    "0 \<le> keyword_coverage tie_breakdown" "keyword_coverage tie_breakdown \<le> 100"
    "0 \<le> completeness tie_breakdown" "completeness tie_breakdown \<le> 100"
    "0 \<le> readability tie_breakdown" "readability tie_breakdown \<le> 100"
    by (simp_all add: tie_breakdown_def)
  from calculate_final_score_weighted_sum [OF h] h calculate_final_score_tie
  show ?thesis by blast
qed


section \<open>Score ranges and totality\<close>

text \<open>
  C1.  Whenever the embedder honours its contract of one score per document, each of the
  four sub-scores of a product (the semantic relevance for any non-empty query list, and
  for the generated queries in particular) and the composite returned by
  \<open>score_product\<close> lies in the closed interval from 0 to 100, and \<open>score_product\<close>
  returns these very sub-scores as its breakdown.  The field constraints of a valid
  product are not needed for this.
\<close>

theorem sub_scores_and_composite_in_range:
  assumes "one_score_per_document emb" and "queries \<noteq> []"
  shows "\<exists>s0 s k c bd.
           calculate_semantic_relevance lower emb p queries = Inr s0 \<and> 0 \<le> s0 \<and> s0 \<le> 100 \<and>
           calculate_semantic_relevance lower emb p (generate_ai_queries p) = Inr s \<and> 0 \<le> s \<and> s \<le> 100 \<and>
           calculate_keyword_coverage lower p = Inr k \<and> 0 \<le> k \<and> k \<le> 100 \<and>
           calculate_completeness lower p = Inr c \<and> 0 \<le> c \<and> c \<le> 100 \<and>
           0 \<le> calculate_readability fl p \<and> calculate_readability fl p \<le> 100 \<and>
           bd = \<lparr> semantic_relevance = s, keyword_coverage = k, completeness = c,
                  readability = calculate_readability fl p \<rparr> \<and>
           score_product lower emb fl p = Inr (calculate_final_score bd, bd, generate_ai_queries p) \<and>
           0 \<le> calculate_final_score bd \<and> calculate_final_score bd \<le> 100"
proof -
  from calculate_semantic_relevance_total [OF assms] obtain s0
    where s0: "calculate_semantic_relevance lower emb p queries = Inr s0" "0 \<le> s0" "s0 \<le> 100"
    by blast
  from calculate_semantic_relevance_total [OF assms(1) generate_ai_queries_nonempty] obtain s
    where s: "calculate_semantic_relevance lower emb p (generate_ai_queries p) = Inr s" "0 \<le> s" "s \<le> 100"
    by blast
  obtain k where k: "calculate_keyword_coverage lower p = Inr k" "0 \<le> k" "k \<le> 100"
    using calculate_keyword_coverage_eq [of lower p] clamp_bounds by blast
  obtain c where c: "calculate_completeness lower p = Inr c" "0 \<le> c" "c \<le> 100"
    using calculate_completeness_eq [of lower p] clamp_bounds by blast
  note r = calculate_readability_bounds [of fl p]
  define bd where "bd = \<lparr> semantic_relevance = s, keyword_coverage = k, completeness = c,
                  readability = calculate_readability fl p \<rparr>"
  have nb: "new_ScoreBreakdown s k c (calculate_readability fl p) = Inr bd"
    using s k c r by (simp add: new_ScoreBreakdown_def bd_def)
  have sp: "score_product lower emb fl p = Inr (calculate_final_score bd, bd, generate_ai_queries p)"
    by (simp add: score_product_def Let_def s(1) k(1) c(1) nb)
  have fb: "0 \<le> calculate_final_score bd \<and> calculate_final_score bd \<le> 100"
    using s k c r by (intro calculate_final_score_bounds) (simp_all add: bd_def)
  from s0 s k c r sp fb bd_def show ?thesis by blast
qed

theorem sub_scores_and_composite_in_range_witness:
  "one_score_per_document const_embedder \<and> [lit ''best gadgets''] \<noteq> [] \<and>
   (\<exists>s0 s k c bd.
      calculate_semantic_relevance ascii_lower const_embedder acme_x1 [lit ''best gadgets''] = Inr s0 \<and>
      0 \<le> s0 \<and> s0 \<le> 100 \<and>
      calculate_semantic_relevance ascii_lower const_embedder acme_x1 (generate_ai_queries acme_x1) = Inr s \<and>
      0 \<le> s \<and> s \<le> 100 \<and>
      calculate_keyword_coverage ascii_lower acme_x1 = Inr k \<and> 0 \<le> k \<and> k \<le> 100 \<and>
      calculate_completeness ascii_lower acme_x1 = Inr c \<and> 0 \<le> c \<and> c \<le> 100 \<and>
      0 \<le> calculate_readability flesch_60 acme_x1 \<and>
      calculate_readability flesch_60 acme_x1 \<le> 100 \<and>
      bd = \<lparr> semantic_relevance = s, keyword_coverage = k, completeness = c,
             readability = calculate_readability flesch_60 acme_x1 \<rparr> \<and>
      score_product ascii_lower const_embedder flesch_60 acme_x1
        = Inr (calculate_final_score bd, bd, generate_ai_queries acme_x1) \<and>
      0 \<le> calculate_final_score bd \<and> calculate_final_score bd \<le> 100)"
proof -
  have h1: "one_score_per_document const_embedder"
    by (simp add: one_score_per_document_def const_embedder_def)
  have h2: "[lit ''best gadgets''] \<noteq> []" by simp
  from sub_scores_and_composite_in_range [OF h1 h2, of ascii_lower acme_x1 flesch_60] h1 h2
  show ?thesis by simp
qed

text \<open>
  C8.  No sub-score function raises: with an embedder that returns one score per document
  and a non-empty query list, semantic relevance, keyword coverage and completeness each
  return a value, and readability always returns a value (its result carries no error);
  when the Flesch metric fails, readability is the neutral default 50.
\<close>

theorem sub_scores_total:
  assumes "one_score_per_document emb" and "queries \<noteq> []"
  shows "(\<exists>s. calculate_semantic_relevance lower emb p queries = Inr s) \<and>
         (\<exists>k. calculate_keyword_coverage lower p = Inr k) \<and>
         (\<exists>c. calculate_completeness lower p = Inr c) \<and>
         (fl (description p) = None \<longrightarrow> calculate_readability fl p = 50)"
proof -
  from calculate_semantic_relevance_total [OF assms, of lower p]
  have "\<exists>s. calculate_semantic_relevance lower emb p queries = Inr s" by blast
  moreover have "\<exists>k. calculate_keyword_coverage lower p = Inr k"
    by (simp add: calculate_keyword_coverage_eq)
  moreover have "\<exists>c. calculate_completeness lower p = Inr c"
    by (simp add: calculate_completeness_eq)
  moreover have "fl (description p) = None \<longrightarrow> calculate_readability fl p = 50"
    by (simp add: calculate_readability_fallback)
  ultimately show ?thesis by blast
qed

theorem sub_scores_total_witness:
  "one_score_per_document const_embedder \<and> generate_ai_queries acme_x1 \<noteq> [] \<and>
   flesch_fails (description acme_x1) = None \<and>
   (\<exists>s. calculate_semantic_relevance ascii_lower const_embedder acme_x1 (generate_ai_queries acme_x1) = Inr s) \<and>
   (\<exists>k. calculate_keyword_coverage ascii_lower acme_x1 = Inr k) \<and>
   (\<exists>c. calculate_completeness ascii_lower acme_x1 = Inr c) \<and>
   calculate_readability flesch_fails acme_x1 = 50"
proof -
  have h1: "one_score_per_document const_embedder"
    by (simp add: one_score_per_document_def const_embedder_def)
  have h2: "generate_ai_queries acme_x1 \<noteq> []"
    by (simp add: generate_ai_queries_def)
  have h3: "flesch_fails (description acme_x1) = None"
    by (simp add: flesch_fails_def)
  from sub_scores_total [OF h1 h2, of ascii_lower acme_x1 flesch_fails] h1 h2 h3
  show ?thesis by simp
qed


section \<open>Ranking\<close>

text \<open>
  C3.  With an embedder that returns one score per document, \<open>rank_products\<close> scores
  every product of the cohort (\<open>scored\<close> pairs each input product, in input order, with
  its composite score) and returns one ranked product per input product: the output has
  the cohort's length and holds the cohort's products with their scores, each as often
  as in the input; it is sorted by non-increasing score; the entries of any one score
  keep their input order; the ranks of the output are 1, 2, ..., N in this order; and
  two equal-scored products A before B come out as A at rank 1 and B at rank 2.
\<close>

theorem rank_products_sorted_stable:
  assumes "one_score_per_document emb"
  shows "\<exists>scored ranked.
    score_all lower emb fl ps = Inr scored \<and>
    list_all2 (\<lambda>p x. fst x = p \<and> (\<exists>bd qs. score_product lower emb fl p = Inr (snd x, bd, qs)))
       ps scored \<and>
    rank_products lower emb fl sent ps = Inr ranked \<and>
    length ranked = length ps \<and>
    mset (map product ranked) = mset ps \<and>
    mset (map (\<lambda>r. (product r, score r)) ranked) = mset scored \<and>
    sorted_wrt (\<lambda>a b. score b \<le> score a) ranked \<and>
    (\<forall>k. map (\<lambda>r. (product r, score r)) (filter (\<lambda>r. score r = k) ranked)
           = filter (\<lambda>x. snd x = k) scored) \<and>
    map rank ranked = map int [1..<Suc (length ps)] \<and>
    (\<forall>A B s. scored = [(A, s), (B, s)] \<longrightarrow>
       map (\<lambda>r. (product r, rank r)) ranked = [(A, 1), (B, 2)])"
proof -
  from rank_products_result [OF assms, of lower fl ps sent] obtain scored ranked
    where sc: "score_all lower emb fl ps = Inr scored"
      and l2: "list_all2 (\<lambda>p x. fst x = p \<and> (\<exists>bd qs. score_product lower emb fl p = Inr (snd x, bd, qs)))
             ps scored"
      and rp: "rank_products lower emb fl sent ps = Inr ranked"
      and pairs: "map (\<lambda>r. (product r, score r)) ranked = sort_key (\<lambda>x. - snd x) scored"
      and ranks: "map rank ranked = map int [1..<Suc (length ps)]"
    by blast
  from l2 have fsts: "map fst scored = ps" by (rule list_all2_fst_eq)
  have len: "length ranked = length ps"
    using arg_cong [OF pairs, of length] arg_cong [OF fsts, of length] by simp
  have ms: "mset (map (\<lambda>r. (product r, score r)) ranked) = mset scored"
    by (simp add: pairs)
  have "mset (map fst (map (\<lambda>r. (product r, score r)) ranked)) = mset (map fst scored)"
    unfolding pairs by simp
  then have msp: "mset (map product ranked) = mset ps"
    by (simp add: comp_def fsts)
  have "sorted (map (\<lambda>x. - snd x) (map (\<lambda>r. (product r, score r)) ranked))"
    unfolding pairs by (rule sorted_sort_key)
  then have srt: "sorted_wrt (\<lambda>a b. score b \<le> score a) ranked"
    by (simp add: comp_def sorted_map)
  have stable: "map (\<lambda>r. (product r, score r)) (filter (\<lambda>r. score r = k) ranked)
           = filter (\<lambda>x. snd x = k) scored" for k
  proof -
    have "map (\<lambda>r. (product r, score r)) (filter (\<lambda>r. score r = k) ranked)
        = filter (\<lambda>x. - snd x = - k) (map (\<lambda>r. (product r, score r)) ranked)"
      by (simp add: filter_map comp_def)
    also have "\<dots> = filter (\<lambda>x. - snd x = - k) scored"
      unfolding pairs by (rule sort_key_stable)
    finally show ?thesis by simp
  qed
  have two: "map (\<lambda>r. (product r, rank r)) ranked = [(A, 1), (B, 2)]"
    if "scored = [(A, s), (B, s)]" for A B s
  proof -
    from that pairs have "map (\<lambda>r. (product r, score r)) ranked = [(A, s), (B, s)]" by simp
    then have p: "map product ranked = [A, B]" 
      using arg_cong [of _ _ "map fst"] by (fastforce simp: comp_def)
    from that fsts have "length ps = 2" by auto
    with ranks have r: "map rank ranked = [1, 2]" by (simp add: upt_rec)
    from p r show ?thesis by (auto simp: map_eq_Cons_conv)
  qed
  from sc l2 rp len msp ms srt stable ranks two show ?thesis by blast
qed

theorem rank_products_sorted_stable_witness:
  "one_score_per_document const_embedder \<and>
   (\<exists>scored ranked.
    score_all ascii_lower const_embedder flesch_60 [acme_x1, acme_x1] = Inr scored \<and>
    list_all2 (\<lambda>p x. fst x = p \<and>
                 (\<exists>bd qs. score_product ascii_lower const_embedder flesch_60 p = Inr (snd x, bd, qs)))
       [acme_x1, acme_x1] scored \<and>
    rank_products ascii_lower const_embedder flesch_60 plain_sentiment [acme_x1, acme_x1] = Inr ranked \<and>
    length ranked = length [acme_x1, acme_x1] \<and>
    mset (map product ranked) = mset [acme_x1, acme_x1] \<and>
    mset (map (\<lambda>r. (product r, score r)) ranked) = mset scored \<and>
    sorted_wrt (\<lambda>a b. score b \<le> score a) ranked \<and>
    (\<forall>k. map (\<lambda>r. (product r, score r)) (filter (\<lambda>r. score r = k) ranked)
           = filter (\<lambda>x. snd x = k) scored) \<and>
    map rank ranked = map int [1..<Suc (length [acme_x1, acme_x1])] \<and>
    (\<forall>A B s. scored = [(A, s), (B, s)] \<longrightarrow>
       map (\<lambda>r. (product r, rank r)) ranked = [(A, 1), (B, 2)]))"
proof -
  have h: "one_score_per_document const_embedder"
    by (simp add: one_score_per_document_def const_embedder_def)
  from rank_products_sorted_stable [OF h, of ascii_lower flesch_60 "[acme_x1, acme_x1]" plain_sentiment] h
  show ?thesis by blast
qed

text \<open>
  C9.  With an embedder that returns one score per document, \<open>rank_against_competitors\<close>
  ranks the cohort made of the subject followed by the competitors and returns, next to
  the whole ranking, the first entry of the ranking whose product equals the subject:
  no earlier entry has an equal product.  This holds for every competitor list, the
  empty one included.
\<close>

theorem rank_against_competitors_first_match:
  assumes "one_score_per_document emb"
  shows "\<exists>ranked user_ranked i.
    rank_products lower emb fl sent ([user_product] @ competitors) = Inr ranked \<and>
    rank_against_competitors lower emb fl sent user_product competitors = Inr (user_ranked, ranked) \<and>
    i < length ranked \<and> user_ranked = ranked ! i \<and>
    product (ranked ! i) = user_product \<and>
    (\<forall>j<i. product (ranked ! j) \<noteq> user_product)"
proof -
  let ?ps = "[user_product] @ competitors"
  from rank_products_result [OF assms, of lower fl ?ps sent] obtain scored ranked
    where l2: "list_all2 (\<lambda>p x. fst x = p \<and>
                 (\<exists>bd qs. score_product lower emb fl p = Inr (snd x, bd, qs))) ?ps scored"
      and rp: "rank_products lower emb fl sent ?ps = Inr ranked"
      and pairs: "map (\<lambda>r. (product r, score r)) ranked = sort_key (\<lambda>x. - snd x) scored"
    by blast
  from l2 have fsts: "map fst scored = ?ps" by (rule list_all2_fst_eq)
  have "set (map fst (map (\<lambda>r. (product r, score r)) ranked)) = set (map fst scored)"
    unfolding pairs by simp
  then have "product ` set ranked = set ?ps"
    by (simp add: comp_def fsts)
  then have "user_product \<in> product ` set ranked" by simp
  then have "\<exists>r\<in>set ranked. product r = user_product" by blast
  then have "find (\<lambda>r. product r = user_product) ranked \<noteq> None"
    by (auto simp: find_None_iff)
  then obtain user_ranked
    where fnd: "find (\<lambda>r. product r = user_product) ranked = Some user_ranked" by blast
  then obtain i where i: "i < length ranked" "product (ranked ! i) = user_product"
      "user_ranked = ranked ! i" "\<forall>j<i. product (ranked ! j) \<noteq> user_product"
    unfolding find_Some_iff by blast
  have "rank_against_competitors lower emb fl sent user_product competitors = Inr (user_ranked, ranked)"
    using rp fnd by (simp add: rank_against_competitors_def)
  with rp i show ?thesis by blast
qed

theorem rank_against_competitors_first_match_witness:
  "one_score_per_document const_embedder \<and>
   (\<exists>ranked user_ranked i.
    rank_products ascii_lower const_embedder flesch_60 plain_sentiment ([acme_x1] @ [weight_product, acme_x1])
      = Inr ranked \<and>
    rank_against_competitors ascii_lower const_embedder flesch_60 plain_sentiment acme_x1
      [weight_product, acme_x1] = Inr (user_ranked, ranked) \<and>
    i < length ranked \<and> user_ranked = ranked ! i \<and>
    product (ranked ! i) = acme_x1 \<and>
    (\<forall>j<i. product (ranked ! j) \<noteq> acme_x1))"
proof -
  have h: "one_score_per_document const_embedder"
    by (simp add: one_score_per_document_def const_embedder_def)
  from rank_against_competitors_first_match
    [OF h, of ascii_lower flesch_60 plain_sentiment acme_x1 "[weight_product, acme_x1]"] h
  show ?thesis by blast
qed


section \<open>Feature extraction\<close>

text \<open>
  C10.  For every title and description, \<open>extract_features\<close> returns a list without
  duplicates that is a subsequence of the seven tags wireless, bluetooth, noise cancel,
  fast charge, battery life, material, design in this order, and a tag is in the list
  exactly when one of the tag's triggers occurs in the lower-cased text made of the
  title, a space and the description (the triggers are lower-case, so this is an occurrence
  without regard to case).  This holds whatever \<open>str.lower()\<close> does to the text.
\<close>

theorem extract_features_spec:
  "distinct (extract_features lower ttl descr) \<and>
   subseq (extract_features lower ttl descr)
     [lit ''wireless'', lit ''bluetooth'', lit ''noise cancel'', lit ''fast charge'',
      lit ''battery life'', lit ''material'', lit ''design''] \<and>
   (tag \<in> set (extract_features lower ttl descr) \<longleftrightarrow>
      (\<exists>triggers. map_of mapping tag = Some triggers \<and>
         (\<exists>trigger\<in>set triggers. \<exists>pre post.
            lower (ttl @ lit '' '' @ descr) = pre @ trigger @ post)))"
proof -
  let ?text = "lower (ttl @ lit '' '' @ descr)"
  let ?hit = "\<lambda>(feature :: str, triggers). any_in triggers ?text"
  have ef: "extract_features lower ttl descr = map fst (filter ?hit mapping)"
    by (simp add: extract_features_def Let_def)
  have d: "distinct (extract_features lower ttl descr)"
    unfolding ef by (rule distinct_map_filter) (rule distinct_mapping_keys)
  have "subseq (map fst (filter ?hit mapping)) (map fst mapping)"
    by (intro subseq_map subseq_filter_left)
  then have s: "subseq (extract_features lower ttl descr)
     [lit ''wireless'', lit ''bluetooth'', lit ''noise cancel'', lit ''fast charge'',
      lit ''battery life'', lit ''material'', lit ''design'']"
    by (simp only: ef mapping_keys)
  have "tag \<in> set (extract_features lower ttl descr) \<longleftrightarrow>
      (\<exists>triggers. (tag, triggers) \<in> set mapping \<and> any_in triggers ?text)"
    unfolding ef by force
  also have "\<dots> \<longleftrightarrow> (\<exists>triggers. (tag, triggers) \<in> set mapping \<and>
         (\<exists>trigger\<in>set triggers. \<exists>pre post. ?text = pre @ trigger @ post))"
    by (simp only: any_in_iff is_in_sublist sublist_def)
  finally have m: "tag \<in> set (extract_features lower ttl descr) \<longleftrightarrow>
      (\<exists>triggers. map_of mapping tag = Some triggers \<and>
         (\<exists>trigger\<in>set triggers. \<exists>pre post. ?text = pre @ trigger @ post))"
    by (simp add: map_of_eq_Some_iff [OF distinct_mapping_keys])
  from d s m show ?thesis by blast
qed


section \<open>Keyword coverage\<close>

text \<open>
  C7, as the code has it.  Let \<open>kw\<close> be one of the important keywords of a product (its
  lower-cased category or brand, or a generic term) that does not occur in the lower-cased
  description.  For a new description in whose lower-cased text \<open>kw\<close> occurs and the whole
  lower-cased old description still occurs as one contiguous run (as when the keyword is
  appended after a space to ASCII text), keyword coverage does not decrease; it rises by
  at least one keyword's share, \<open>100 / 13\<close>.
\<close>

theorem keyword_coverage_monotonic:
  assumes "kw \<in> set (important_keywords lower p)"
    and "\<not> is_in kw (lower (description p))"
    and "is_in kw (lower d')"
    and "is_in (lower (description p)) (lower d')"
  shows "\<exists>c c'. calculate_keyword_coverage lower p = Inr c \<and>
           calculate_keyword_coverage lower (p \<lparr> description := d' \<rparr>) = Inr c' \<and>
           c \<le> c' \<and> c + 100 / 13 \<le> c'"
proof -
  let ?p' = "p \<lparr> description := d' \<rparr>"
  let ?kws = "important_keywords lower p"
  let ?n = "count_in ?kws (lower (description p))"
  let ?n' = "count_in ?kws (lower d')"
  have kws: "important_keywords lower ?p' = ?kws" by (simp add: important_keywords_def)
  have "?n < ?n'"
    unfolding count_in_def
  proof (rule length_filter_less [where y = kw])
    show "is_in x (lower d')" if "is_in x (lower (description p))" for x
      using that assms(4) by (rule is_in_trans)
  qed (use assms in auto)
  then have n: "real ?n + 1 \<le> real ?n'" by linarith
  have "?n' \<le> length ?kws" unfolding count_in_def by (rule length_filter_le)
  then have n': "real ?n' \<le> 13" by (simp add: length_important_keywords)
  have c: "calculate_keyword_coverage lower p = Inr (real ?n / 13 * 100)"
    using n n' by (simp add: calculate_keyword_coverage_eq)
  have c': "calculate_keyword_coverage lower ?p' = Inr (real ?n' / 13 * 100)"
    using n n' by (simp add: calculate_keyword_coverage_eq kws)
  from n have "real ?n / 13 * 100 + 100 / 13 \<le> real ?n' / 13 * 100" by simp
  moreover from this have "real ?n / 13 * 100 \<le> real ?n' / 13 * 100" by simp
  ultimately show ?thesis using c c' by blast
qed

theorem keyword_coverage_monotonic_witness:
  "lit ''quality'' \<in> set (important_keywords ascii_lower acme_x1) \<and>
   \<not> is_in (lit ''quality'') (ascii_lower (description acme_x1)) \<and>
   is_in (lit ''quality'') (ascii_lower (description acme_x1 @ lit '' Quality'')) \<and>
   is_in (ascii_lower (description acme_x1))
     (ascii_lower (description acme_x1 @ lit '' Quality'')) \<and>
   (\<exists>c c'. calculate_keyword_coverage ascii_lower acme_x1 = Inr c \<and>
      calculate_keyword_coverage ascii_lower
        (acme_x1 \<lparr> description := description acme_x1 @ lit '' Quality'' \<rparr>) = Inr c' \<and>
      c \<le> c' \<and> c + 100 / 13 \<le> c')"
proof -
  have h1: "lit ''quality'' \<in> set (important_keywords ascii_lower acme_x1)"
    by (simp add: important_keywords_def)
  have h2: "\<not> is_in (lit ''quality'') (ascii_lower (description acme_x1))"
    by (simp add: acme_x1_def text_eval)
  have h3: "is_in (lit ''quality'') (ascii_lower (description acme_x1 @ lit '' Quality''))"
    by (simp add: acme_x1_def text_eval)
  have h4: "is_in (ascii_lower (description acme_x1))
     (ascii_lower (description acme_x1 @ lit '' Quality''))"
    by (simp add: ascii_lower_append is_in_sublist)
  from keyword_coverage_monotonic [OF h1 h2 h3 h4] h1 h2 h3 h4 show ?thesis by blast
qed

text \<open>
  C7, as stated, fails.  The valid product with category "Smart Watches", brand
  "Acme Smart" and description "Acme Smart Watches" has two important keywords in its
  description and neither is "top".  Adding an occurrence of "top" inside the word "Smart"
  gives the description "Acme Smtopart Watches", in which "top" is the only important
  keyword left: coverage falls from 200/13 to 100/13.
\<close>

theorem keyword_coverage_monotonic_counterexample:
  "valid_product smart_watch \<and> valid_product smart_watch_top \<and>
   lit ''top'' \<in> set (important_keywords ascii_lower smart_watch) \<and>
   \<not> is_in (lit ''top'') (ascii_lower (description smart_watch)) \<and>
   description smart_watch_top
     = take 7 (description smart_watch) @ lit ''top'' @ drop 7 (description smart_watch) \<and>
   calculate_keyword_coverage ascii_lower smart_watch = Inr (200 / 13) \<and>
   calculate_keyword_coverage ascii_lower smart_watch_top = Inr (100 / 13) \<and>
   (100 / 13 :: real) < 200 / 13"
proof -
  have "valid_product smart_watch" "valid_product smart_watch_top"
    by (simp_all add: valid_product_def smart_watch_top_def smart_watch_def lit_def)
  moreover have "lit ''top'' \<in> set (important_keywords ascii_lower smart_watch)"
    by (simp add: important_keywords_def)
  moreover have "\<not> is_in (lit ''top'') (ascii_lower (description smart_watch))"
    by (simp add: smart_watch_def text_eval)
  moreover have "description smart_watch_top
     = take 7 (description smart_watch) @ lit ''top'' @ drop 7 (description smart_watch)"
    by (simp add: smart_watch_top_def smart_watch_def lit_def)
  moreover have "calculate_keyword_coverage ascii_lower smart_watch = Inr (200 / 13)"
    by (simp add: calculate_keyword_coverage_eq important_keywords_def smart_watch_def
        text_eval)
  moreover have "calculate_keyword_coverage ascii_lower smart_watch_top = Inr (100 / 13)"
    by (simp add: calculate_keyword_coverage_eq important_keywords_def smart_watch_top_def
        smart_watch_def text_eval)
  moreover have "(100 / 13 :: real) < 200 / 13" by simp
  ultimately show ?thesis by blast
qed


section \<open>Weakness analysis\<close>

text \<open>
  C4, as the code has it.  For the product with title "Acme X1", description
  "A decent gadget.", category "Gadgets" and brand "Acme", whose description is shorter
  than \<open>MIN_DESCRIPTION_LENGTH = 50\<close>, for every score breakdown and every lower-casing that
  treats ASCII text as \<open>str.lower()\<close> does, \<open>analyze_weaknesses\<close> reports the clarity issue
  "Description too short" and the five missing specs "specifications", "dimensions",
  "weight", "material", "warranty": a concept is reported under the part of its name
  before the slash, so the battery concept \<open>specifications/battery\<close> appears as
  "specifications".
\<close>

theorem analyze_weaknesses_acme_x1:
  assumes "lowers_ascii lower"
  shows "length (description acme_x1) < MIN_DESCRIPTION_LENGTH \<and>
   clarity_issues (analyze_weaknesses lower acme_x1 b) = [lit ''Description too short''] \<and>
   missing_specs (analyze_weaknesses lower acme_x1 b) =
     [lit ''specifications'', lit ''dimensions'', lit ''weight'', lit ''material'', lit ''warranty'']"
proof -
  have "\<forall>c\<in>set (description acme_x1). c < 128"
    by (simp add: acme_x1_def lit_def)
  with assms have le: "lower (description acme_x1) = ascii_lower (description acme_x1)"
    unfolding lowers_ascii_def by blast
  have short: "length (description acme_x1) < MIN_DESCRIPTION_LENGTH"
    by (simp add: acme_x1_def MIN_DESCRIPTION_LENGTH_def lit_def)
  then have cl: "clarity_issues (analyze_weaknesses lower acme_x1 b) = [lit ''Description too short'']"
    by (simp add: analyze_weaknesses_def Let_def)
  have "missing_specs (analyze_weaknesses lower acme_x1 b) =
      map (\<lambda>(concept, triggers). split_first 47 concept)
        (filter (\<lambda>(concept, triggers). \<not> any_in triggers (lower (description acme_x1)))
           concepts_to_check)"
    by (simp add: analyze_weaknesses_def Let_def)
  also have "\<dots> =
     [lit ''specifications'', lit ''dimensions'', lit ''weight'', lit ''material'', lit ''warranty'']"
    unfolding le
    by (simp add: acme_x1_def concepts_to_check_def split_first_def text_eval)
  finally show ?thesis using short cl by blast
qed

theorem analyze_weaknesses_acme_x1_witness:
  "lowers_ascii ascii_lower \<and>
   length (description acme_x1) < MIN_DESCRIPTION_LENGTH \<and>
   clarity_issues (analyze_weaknesses ascii_lower acme_x1 acme_x1_breakdown)
     = [lit ''Description too short''] \<and>
   missing_specs (analyze_weaknesses ascii_lower acme_x1 acme_x1_breakdown) =
     [lit ''specifications'', lit ''dimensions'', lit ''weight'', lit ''material'', lit ''warranty'']"
proof -
  have h: "lowers_ascii ascii_lower" by (simp add: lowers_ascii_def)
  from analyze_weaknesses_acme_x1 [OF h, of acme_x1_breakdown] h show ?thesis by blast
qed

text \<open>
  C4, as stated, fails: "battery" is not among the missing specs reported for this
  product.
\<close>

theorem analyze_weaknesses_acme_x1_counterexample:
  "lit ''battery'' \<notin> set (missing_specs (analyze_weaknesses ascii_lower acme_x1 acme_x1_breakdown))"
  by (simp add: analyze_weaknesses_def acme_x1_def concepts_to_check_def split_first_def
      Let_def text_eval)


section \<open>Completeness bonus\<close>




end
